theory Spec2Isabelle
  imports Main "HOL-Library.Sublist" "HOL-Library.AList" "HOL-Library.Char_ord"
    "HOL-Library.Product_Lexorder"
begin

section \<open>Python strings\<close>

text \<open>
  A Python \<open>str\<close> is modelled as a \<open>string\<close>: each \<open>char\<close> stands for one code point
  in the range 0..255 (Latin-1). Text with code points beyond that range is outside the
  model. The functions of this section are the \<open>str\<close> methods the program calls,
  restricted to that range.
\<close>

definition py_isspace :: "char \<Rightarrow> bool" where
  \<comment> \<open>\<open>str.isspace\<close> on one code point; also the class \<open>\s\<close> of \<open>re\<close> on \<open>str\<close> patterns.\<close>
  "py_isspace c = (c \<in> set [CHR 0x09, CHR 0x0A, CHR 0x0B, CHR 0x0C, CHR 0x0D,
     CHR 0x1C, CHR 0x1D, CHR 0x1E, CHR 0x1F, CHR 0x20, CHR 0x85, CHR 0xA0])"

definition py_lstrip :: "string \<Rightarrow> string" where
  "py_lstrip s = dropWhile py_isspace s"

definition py_rstrip :: "string \<Rightarrow> string" where
  "py_rstrip s = rev (dropWhile py_isspace (rev s))"

definition py_strip :: "string \<Rightarrow> string" where
  "py_strip s = py_rstrip (py_lstrip s)"

definition lower_char :: "char \<Rightarrow> char" where
  \<comment> \<open>The upper-case letters below code point 256 lie 32 below their lower-case forms,
      and adding 32 to one of them sets bit 5.\<close>
  "lower_char c =
     (if (CHR ''A'' \<le> c \<and> c \<le> CHR ''Z'') \<or> (CHR 0xC0 \<le> c \<and> c \<le> CHR 0xDE \<and> c \<noteq> CHR 0xD7)
      then (case c of Char b0 b1 b2 b3 b4 b5 b6 b7 \<Rightarrow> Char b0 b1 b2 b3 b4 True b6 b7)
      else c)"

definition py_lower :: "string \<Rightarrow> string" where
  "py_lower s = map lower_char s"

fun py_contains :: "string \<Rightarrow> string \<Rightarrow> bool" where
  \<comment> \<open>\<open>py_contains sub s\<close> is Python's \<open>sub in s\<close>.\<close>
  "py_contains sub [] = (sub = [])"
| "py_contains sub (c # cs) = (prefix sub (c # cs) \<or> py_contains sub cs)"

fun split_ws_aux :: "string \<Rightarrow> string \<Rightarrow> string list" where
  "split_ws_aux cur [] = (if cur = [] then [] else [rev cur])"
| "split_ws_aux cur (c # cs) =
     (if py_isspace c then (if cur = [] then split_ws_aux [] cs
                            else rev cur # split_ws_aux [] cs)
      else split_ws_aux (c # cur) cs)"

definition py_split :: "string \<Rightarrow> string list" where
  \<comment> \<open>\<open>s.split()\<close>: the maximal runs of non-whitespace.\<close>
  "py_split s = split_ws_aux [] s"

fun py_join :: "string \<Rightarrow> string list \<Rightarrow> string" where
  "py_join sep [] = []"
| "py_join sep [x] = x"
| "py_join sep (x # y # ys) = x @ sep @ py_join sep (y # ys)"

function str_of_nat :: "nat \<Rightarrow> string" where
  "str_of_nat n =
     (if n < 10 then [char_of (48 + n)]
      else str_of_nat (n div 10) @ [char_of (48 + n mod 10)])"
  by pat_completeness auto
termination
  by (relation "measure id") auto

declare str_of_nat.simps [simp del]

definition str_of_int :: "int \<Rightarrow> string" where
  \<comment> \<open>\<open>str(n)\<close> of a Python \<open>int\<close>.\<close>
  "str_of_int i = (if i < 0 then CHR ''-'' # str_of_nat (nat (- i)) else str_of_nat (nat i))"

section \<open>Dynamically typed values\<close>

text \<open>
  Values of type \<open>Any\<close> that reach the program from JSON documents. Floating-point
  numbers are outside the model. A \<open>dict\<close> keeps its insertion order, so it is an
  association list whose keys are distinct.
\<close>

datatype json =
    JNull
  | JBool bool
  | JInt int
  | JStr string
  | JList "json list"
  | JDict "(string \<times> json) list"

type_synonym jdict = "(string \<times> json) list"

definition dget :: "jdict \<Rightarrow> string \<Rightarrow> json" where
  \<comment> \<open>\<open>d.get(k)\<close>: \<open>None\<close> when the key is absent.\<close>
  "dget d k = (case map_of d k of None \<Rightarrow> JNull | Some v \<Rightarrow> v)"

fun truthy :: "json \<Rightarrow> bool" where
  "truthy JNull = False"
| "truthy (JBool b) = b"
| "truthy (JInt n) = (n \<noteq> 0)"
| "truthy (JStr s) = (s \<noteq> [])"
| "truthy (JList xs) = (xs \<noteq> [])"
| "truthy (JDict d) = (d \<noteq> [])"

definition py_or :: "json \<Rightarrow> json \<Rightarrow> json" where
  "py_or a b = (if truthy a then a else b)"

fun isinstance_int :: "json \<Rightarrow> int option" where
  \<comment> \<open>\<open>isinstance(v, int)\<close>, with the integer when it holds; \<open>bool\<close> is a subclass of \<open>int\<close>.\<close>
  "isinstance_int (JInt n) = Some n"
| "isinstance_int (JBool b) = Some (if b then 1 else 0)"
| "isinstance_int _ = None"

definition hex_digit :: "nat \<Rightarrow> char" where
  "hex_digit n = (if n < 10 then char_of (48 + n) else char_of (87 + n))"

definition repr_printable :: "char \<Rightarrow> bool" where
  \<comment> \<open>\<open>str.isprintable\<close> on one code point below 256.\<close>
  "repr_printable c = (let n = (of_char c :: nat) in
     (32 \<le> n \<and> n < 127) \<or> (161 \<le> n \<and> n \<noteq> 173))"

definition repr_char :: "char \<Rightarrow> char \<Rightarrow> string" where
  "repr_char q c =
     (if c = q \<or> c = CHR 0x5C then [CHR 0x5C, c]
      else if c = CHR 0x09 then [CHR 0x5C, CHR ''t'']
      else if c = CHR 0x0A then [CHR 0x5C, CHR ''n'']
      else if c = CHR 0x0D then [CHR 0x5C, CHR ''r'']
      else if repr_printable c then [c]
      else [CHR 0x5C, CHR ''x'', hex_digit (of_char c div 16), hex_digit (of_char c mod 16)])"

definition repr_str :: "string \<Rightarrow> string" where
  \<comment> \<open>\<open>repr(s)\<close> of a \<open>str\<close>: single quotes unless the text has a single and no double quote.\<close>
  "repr_str s =
     (let q = (if CHR 0x27 \<in> set s \<and> CHR 0x22 \<notin> set s then CHR 0x22 else CHR 0x27)
      in [q] @ concat (map (repr_char q) s) @ [q])"

fun py_repr :: "json \<Rightarrow> string" where
  "py_repr JNull = ''None''"
| "py_repr (JBool b) = (if b then ''True'' else ''False'')"
| "py_repr (JInt n) = str_of_int n"
| "py_repr (JStr s) = repr_str s"
| "py_repr (JList xs) = ''['' @ py_join '', '' (map py_repr xs) @ '']''"
| "py_repr (JDict d) =
     ''{'' @ py_join '', '' (map (\<lambda>kv. repr_str (fst kv) @ '': '' @ py_repr (snd kv)) d) @ ''}''"

definition py_str :: "json \<Rightarrow> string" where
  \<comment> \<open>\<open>str(v)\<close>.\<close>
  "py_str v = (case v of JStr s \<Rightarrow> s | _ \<Rightarrow> py_repr v)"

section \<open>Parse adapter: polling outcomes (adapters/mineru.py)\<close>

fun scan_state_keys :: "jdict \<Rightarrow> string list \<Rightarrow> string option" where
  "scan_state_keys item [] = None"
| "scan_state_keys item (key # keys) =
     (case dget item key of
        JStr value \<Rightarrow> (if py_strip value \<noteq> [] then Some (py_lower (py_strip value))
                       else scan_state_keys item keys)
      | _ \<Rightarrow> scan_state_keys item keys)"

fun scan_state_items :: "jdict list \<Rightarrow> string" where
  "scan_state_items [] = []"
| "scan_state_items (item # items) =
     (case scan_state_keys item [''state'', ''status'', ''task_state'', ''batch_state''] of
        Some s \<Rightarrow> s
      | None \<Rightarrow> scan_state_items items)"

definition extract_state :: "jdict \<Rightarrow> string" where
  "extract_state payload =
     (let candidates = payload #
        (case dget payload ''data'' of
           JDict data \<Rightarrow> data # (case dget data ''result'' of JDict result \<Rightarrow> [result] | _ \<Rightarrow> [])
         | _ \<Rightarrow> [])
      in scan_state_items candidates)"

definition failure_message :: "jdict \<Rightarrow> string" where
  \<comment> \<open>\<open>str(payload.get('msg') or payload.get('message') or '').lower()\<close>\<close>
  "failure_message payload =
     py_lower (py_str (py_or (py_or (dget payload ''msg'') (dget payload ''message'')) (JStr [])))"

definition is_terminal_failure :: "jdict \<Rightarrow> bool" where
  "is_terminal_failure payload =
     (if extract_state payload \<in> set [''failed'', ''error'', ''aborted''] then True
      else (case isinstance_int (dget payload ''code'') of
              None \<Rightarrow> False
            | Some code \<Rightarrow>
                if code \<noteq> 0 then
                  (let msg = failure_message payload in
                   if code = - 60012 \<and> (py_contains ''task not found'' msg \<or> py_contains ''expire'' msg)
                   then False
                   else if msg \<noteq> [] \<and> \<not> py_contains ''processing'' msg
                           \<and> \<not> py_contains ''running'' msg
                   then True else False)
                else False))"

text \<open>The classification in the words of the specification.\<close>

definition benign_not_found :: "jdict \<Rightarrow> bool" where
  "benign_not_found payload =
     (isinstance_int (dget payload ''code'') = Some (- 60012) \<and>
      (py_contains ''task not found'' (failure_message payload) \<or>
       py_contains ''expire'' (failure_message payload)))"

definition spec_terminal_failure :: "jdict \<Rightarrow> bool" where
  "spec_terminal_failure payload =
     (extract_state payload = ''failed'' \<or> extract_state payload = ''error'' \<or>
      extract_state payload = ''aborted'' \<or>
      ((case isinstance_int (dget payload ''code'') of None \<Rightarrow> False | Some code \<Rightarrow> code \<noteq> 0) \<and>
       failure_message payload \<noteq> [] \<and>
       \<not> py_contains ''processing'' (failure_message payload) \<and>
       \<not> py_contains ''running'' (failure_message payload) \<and>
       \<not> benign_not_found payload))"

section \<open>Final-report sections (tools/review_tools.py)\<close>

definition py_linebreak :: "char \<Rightarrow> bool" where
  \<comment> \<open>The line boundaries of \<open>str.splitlines\<close> below code point 256.\<close>
  "py_linebreak c = (c \<in> set [CHR 0x0A, CHR 0x0B, CHR 0x0C, CHR 0x0D,
     CHR 0x1C, CHR 0x1D, CHR 0x1E, CHR 0x85])"

function py_splitlines :: "string \<Rightarrow> string list" where
  "py_splitlines s =
     (if s = [] then []
      else takeWhile (\<lambda>c. \<not> py_linebreak c) s #
        (case dropWhile (\<lambda>c. \<not> py_linebreak c) s of
           [] \<Rightarrow> []
         | c # cs \<Rightarrow>
             (case cs of
                [] \<Rightarrow> []
              | d # ds \<Rightarrow> if c = CHR 0x0D \<and> d = CHR 0x0A then py_splitlines ds
                          else py_splitlines (d # ds))))"
  by pat_completeness auto
termination
proof (relation "measure length")
  show "wf (measure length)" by simp
next
  fix s :: string and c cs d ds
  assume "dropWhile (\<lambda>c. \<not> py_linebreak c) s = c # cs" and "cs = d # ds"
  then have "length (d # ds) < length (dropWhile (\<lambda>c. \<not> py_linebreak c) s)" by simp
  also have "\<dots> \<le> length s" by (rule length_dropWhile_le)
  finally have less: "length (d # ds) < length s" .
  { assume "c = CHR 0x0D \<and> d = CHR 0x0A"
    from less show "(ds, s) \<in> measure length" by simp }
  { assume "\<not> (c = CHR 0x0D \<and> d = CHR 0x0A)"
    from less show "(d # ds, s) \<in> measure length" by simp }
qed

declare py_splitlines.simps [simp del]

definition REQUIRED_FINAL_REPORT_SECTIONS :: "(string \<times> string \<times> string list) list" where
  "REQUIRED_FINAL_REPORT_SECTIONS =
    [(''summary'', ''Summary'', [''summary'']),
     (''strengths'', ''Strengths'', [''strengths'']),
     (''weaknesses'', ''Weaknesses'', [''weaknesses'']),
     (''key_issues'', ''Key Issues'', [''key issues'', ''issues'']),
     (''actionable_suggestions'', ''Actionable Suggestions'',
        [''actionable suggestions'', ''suggestions'']),
     (''storyline_options_writing_outlines'', ''Storyline Options + Writing Outlines'',
        [''storyline options + writing outlines'', ''storyline options'', ''writing outlines'',
         ''storylines'']),
     (''priority_revision_plan'', ''Priority Revision Plan'',
        [''priority revision plan'', ''revision plan'']),
     (''experiment_inventory_research_experiment_plan'',
        ''Experiment Inventory & Research Experiment Plan'',
        [''experiment inventory & research experiment plan'', ''experiment inventory'',
         ''research experiment plan'']),
     (''novelty_verification_related_work_matrix'',
        ''Novelty Verification & Related-Work Matrix'',
        [''novelty verification & related-work matrix'',
         ''novelty verification & related work matrix'', ''novelty verification'',
         ''related-work matrix'', ''related work matrix'']),
     (''references'', ''References'', [''references'', ''reference'']),
     (''scores'', ''Scores'', [''scores'', ''score'', ''final score''])]"

fun collapse_ws :: "bool \<Rightarrow> string \<Rightarrow> string" where
  \<comment> \<open>\<open>re.sub(r'\s+', ' ', s)\<close>; the flag says that the previous character was whitespace.\<close>
  "collapse_ws in_run [] = []"
| "collapse_ws in_run (c # cs) =
     (if py_isspace c then (if in_run then collapse_ws True cs else CHR '' '' # collapse_ws True cs)
      else c # collapse_ws False cs)"

definition token_char :: "char \<Rightarrow> string" where
  \<comment> \<open>The replacements of one character: \<open>&\<close>, then the separators, then \<open>[^0-9a-z\s]\<close>.\<close>
  "token_char c =
     (if c = CHR ''&'' then '' and ''
      else if c \<in> set [CHR ''+'', CHR ''/'', CHR 0x5C, CHR ''_'', CHR ''-''] then '' ''
      else if (CHR ''0'' \<le> c \<and> c \<le> CHR ''9'') \<or> (CHR ''a'' \<le> c \<and> c \<le> CHR ''z'') \<or> py_isspace c
      then [c]
      else '' '')"

definition normalize_final_report_section_token :: "string \<Rightarrow> string" where
  "normalize_final_report_section_token v =
     (let token = py_lower (py_strip v) in
      if token = [] then []
      else py_strip (collapse_ws False (concat (map token_char token))))"

definition required_final_report_section_order :: "string list" where
  "required_final_report_section_order = map fst REQUIRED_FINAL_REPORT_SECTIONS"

definition required_final_report_section_titles :: "(string \<times> string) list" where
  "required_final_report_section_titles =
     map (\<lambda>(section_id, title, aliases). (section_id, title)) REQUIRED_FINAL_REPORT_SECTIONS"

definition section_title :: "string \<Rightarrow> string" where
  \<comment> \<open>\<open>title_map.get(section_id, section_id)\<close>\<close>
  "section_title section_id =
     (case map_of required_final_report_section_titles section_id of
        None \<Rightarrow> section_id | Some t \<Rightarrow> t)"

definition required_final_report_alias_map :: "(string \<times> string) list" where
  "required_final_report_alias_map =
     foldl (\<lambda>alias_map (section_id, title, aliases).
        foldl (\<lambda>m raw_alias.
                 (let normalized_alias = normalize_final_report_section_token raw_alias
                  in if normalized_alias \<noteq> [] then AList.update normalized_alias section_id m
                     else m))
              alias_map (section_id # title # aliases))
       [] REQUIRED_FINAL_REPORT_SECTIONS"

definition resolve_final_report_section_id :: "string \<Rightarrow> string option" where
  "resolve_final_report_section_id section_key =
     (let normalized = normalize_final_report_section_token section_key in
      if normalized = [] then None
      else (case map_of required_final_report_alias_map normalized of
              Some direct \<Rightarrow> if direct \<noteq> [] then Some direct
                 else map_option snd (find (\<lambda>(alias, section_id). alias \<noteq> [] \<and> py_contains alias normalized)
                                        required_final_report_alias_map)
            | None \<Rightarrow>
                 map_option snd (find (\<lambda>(alias, section_id). alias \<noteq> [] \<and> py_contains alias normalized)
                                   required_final_report_alias_map)))"

definition heading_match :: "string \<Rightarrow> string option" where
  \<comment> \<open>\<open>_FINAL_REPORT_SECTION_HEADING_PATTERN.match(line)\<close> for
      \<open>^\s{0,3}#{1,6}\s+(.+?)\s*$\<close>: the text of group 1 when the line matches.\<close>
  "heading_match s =
     (let indent = takeWhile py_isspace s;
          s1 = dropWhile py_isspace s;
          hashes = takeWhile (\<lambda>c. c = CHR ''#'') s1;
          r = dropWhile (\<lambda>c. c = CHR ''#'') s1
      in if length indent > 3 \<or> hashes = [] \<or> length hashes > 6 then None
         else (case r of
                 [] \<Rightarrow> None
               | c # cs \<Rightarrow>
                   if \<not> py_isspace c then None
                   else (let body = dropWhile py_isspace r in
                         if body \<noteq> [] then
                           (if CHR 0x0A \<in> set (py_rstrip body) then None
                            else Some (py_rstrip body))
                         else (case filter (\<lambda>c. c \<noteq> CHR 0x0A) (rev cs) of
                                 [] \<Rightarrow> None
                               | d # ds \<Rightarrow> Some [d]))))"

datatype section_value = SText string | SList "string list"

definition coerce_markdown_text :: "string option \<Rightarrow> string" where
  "coerce_markdown_text v = (case v of None \<Rightarrow> [] | Some s \<Rightarrow> py_strip s)"

definition coerce_section_markdown :: "section_value option \<Rightarrow> string" where
  \<comment> \<open>Every call passes \<open>list_as_bullets=True\<close>.\<close>
  "coerce_section_markdown v =
     (case v of
        None \<Rightarrow> []
      | Some (SList xs) \<Rightarrow>
          (let items = map py_strip (filter (\<lambda>item. py_strip item \<noteq> []) xs) in
           if items = [] then [] else py_join [CHR 0x0A] (map (\<lambda>item. ''- '' @ item) items))
      | Some (SText s) \<Rightarrow> py_strip s)"

definition strip_leading_section_heading :: "string \<Rightarrow> string \<Rightarrow> string" where
  "strip_leading_section_heading section_id content =
     (let text = py_strip content in
      if text = [] then []
      else (case py_splitlines text of
              [] \<Rightarrow> text
            | first # rest \<Rightarrow>
                (case heading_match (py_strip first) of
                   None \<Rightarrow> text
                 | Some heading_text \<Rightarrow>
                     if resolve_final_report_section_id heading_text \<noteq> Some section_id then text
                     else py_strip (py_join [CHR 0x0A]
                            (dropWhile (\<lambda>l. py_strip l = []) rest)))))"

type_synonym sections = "(string \<times> string) list"

definition dict_update :: "('k \<times> 'v) list \<Rightarrow> ('k \<times> 'v) list \<Rightarrow> ('k \<times> 'v) list" where
  \<comment> \<open>\<open>d.update(other)\<close>\<close>
  "dict_update d other = foldl (\<lambda>m (k, v). AList.update k v m) d other"

definition normalize_final_report_sections :: "sections \<Rightarrow> sections" where
  "normalize_final_report_sections raw_sections =
     foldl (\<lambda>normalized (raw_key, raw_value).
        (case resolve_final_report_section_id raw_key of
           None \<Rightarrow> normalized
         | Some section_id \<Rightarrow>
             (let content = py_strip (py_strip raw_value) in
              if content \<noteq> [] then AList.update section_id content normalized
              else normalized)))
       [] raw_sections"

definition put_if :: "string \<Rightarrow> string \<Rightarrow> sections \<Rightarrow> sections" where
  "put_if k v d = (if v \<noteq> [] then AList.update k v d else d)"

definition build_sections_from_legacy_fields ::
  "string option \<Rightarrow> section_value option \<Rightarrow> section_value option \<Rightarrow> section_value option \<Rightarrow>
   section_value option \<Rightarrow> section_value option \<Rightarrow> sections" where
  "build_sections_from_legacy_fields summary strengths weaknesses issues suggestions storylines =
     put_if ''storyline_options_writing_outlines'' (coerce_section_markdown storylines)
      (put_if ''actionable_suggestions'' (coerce_section_markdown suggestions)
        (put_if ''key_issues'' (coerce_section_markdown issues)
          (put_if ''weaknesses'' (coerce_section_markdown weaknesses)
            (put_if ''strengths'' (coerce_section_markdown strengths)
              (put_if ''summary'' (coerce_markdown_text summary) [])))))"

type_synonym section_buffers = "(string \<times> string list) list"

definition extract_step ::
  "section_buffers \<times> string option \<Rightarrow> string \<Rightarrow> section_buffers \<times> string option" where
  \<comment> \<open>One round of the loop over the lines: the buffers and the active section id.\<close>
  "extract_step st raw_line =
     (let section_buffers = fst st; active_section_id = snd st in
      case heading_match raw_line of
        Some heading_text \<Rightarrow>
          (case resolve_final_report_section_id heading_text of
             None \<Rightarrow> (section_buffers, None)
           | Some a \<Rightarrow>
               if a \<noteq> [] \<and> map_of section_buffers a = None
               then (AList.update a [] section_buffers, Some a)
               else (section_buffers, Some a))
      | None \<Rightarrow>
          (case active_section_id of
             None \<Rightarrow> (section_buffers, None)
           | Some a \<Rightarrow>
               if a = [] then (section_buffers, Some a)
               else (case map_of section_buffers a of
                       None \<Rightarrow> (AList.update a [raw_line] section_buffers, Some a)
                     | Some ls \<Rightarrow> (AList.update a (ls @ [raw_line]) section_buffers, Some a))))"

definition extract_required_sections_from_markdown :: "string \<Rightarrow> sections" where
  "extract_required_sections_from_markdown markdown_text =
     (let section_buffers = fst (foldl extract_step ([], None) (py_splitlines markdown_text))
      in foldl (\<lambda>extracted (section_id, ls).
                  (let content = py_strip (py_join [CHR 0x0A] ls) in
                   if content \<noteq> [] then AList.update section_id content extracted
                   else extracted))
               [] section_buffers)"

definition build_final_report_markdown_from_sections :: "sections \<Rightarrow> string" where
  "build_final_report_markdown_from_sections sections =
     (let blocks =
        concat (map (\<lambda>section_id.
           (let content = py_strip (case map_of sections section_id of None \<Rightarrow> [] | Some c \<Rightarrow> c)
            in if content = [] then []
               else [''## '' @ section_title section_id @ [CHR 0x0A] @ content]))
          required_final_report_section_order)
      in if blocks = [] then [] else py_strip (py_join [CHR 0x0A, CHR 0x0A] blocks))"


section \<open>Job record, event log and tool runtime (types.py, storage.py, state.py)\<close>

record token_usage =
  requests :: int
  input_tokens :: int
  output_tokens :: int
  total_tokens :: int

record tool_usage =
  tool_total_calls :: int
  distinct_tools :: int
  per_tool :: "(string \<times> int) list"

record paper_search_usage =
  total_calls :: int
  successful_calls :: int
  effective_calls :: int
  papers_found :: int
  distinct_queries :: int

record usage_snapshot =
  token :: token_usage
  tool :: tool_usage
  paper_search :: paper_search_usage

record annotation_item =
  ann_id :: string
  ann_page :: int
  ann_start_line :: int
  ann_end_line :: int
  ann_text :: string
  ann_comment :: string
  ann_summary :: "string option"
  ann_object_type :: string
  ann_severity :: "string option"

record job_artifacts =
  source_pdf_path :: "string option"
  mineru_markdown_path :: "string option"
  mineru_content_list_path :: "string option"
  annotations_path :: "string option"
  final_markdown_path :: "string option"
  report_pdf_path :: "string option"
  prompt_snapshot_path :: "string option"

datatype job_status =
    queued | pdf_uploading_to_mineru | pdf_parsing | agent_running
  | final_report_persisting | pdf_exporting | completed | failed

text \<open>The persisted job record (\<open>job.json\<close>); its id and its timestamps are left out.\<close>

record job_state =
  job_title :: string
  source_pdf_name :: string
  status :: job_status
  message :: string
  error :: "string option"
  usage :: usage_snapshot
  annotation_count :: int
  final_report_ready :: bool
  pdf_ready :: bool
  artifacts :: job_artifacts
  metadata :: jdict

text \<open>One line of \<open>events.jsonl\<close>, without its timestamp.\<close>

record event =
  ev_name :: string
  ev_data :: jdict

record settings =
  enable_final_gates :: bool
  min_paper_search_calls_for_pdf_annotate :: int
  min_paper_search_calls_for_final :: int
  min_distinct_paper_queries_for_final :: int
  min_annotations_for_final :: int
  min_english_words_for_final :: int
  min_chinese_chars_for_final :: int
  force_english_output :: bool

text \<open>\<open>ReviewRuntimeContext\<close>: the in-memory state shared by the tool calls of one job run.\<close>

record runtime =
  job_dir :: string
  page_index :: "(int \<times> string list) list"
  rt_settings :: settings
  annotations :: "annotation_item list"
  final_markdown_text :: "string option"
  final_report_draft_sections :: sections
  final_report_draft_version :: int
  tool_counts :: "(string \<times> int) list"
  paper_search_usage :: paper_search_usage
  paper_search_signatures :: "string set"
  status_updates :: "jdict list"

text \<open>
  What a tool call can change: the runtime, the job record, the event log, and the two
  artifact files the tools write. \<open>final_report_writes\<close> counts the atomic writes of
  \<open>final_report.md\<close>, so that a rewrite with equal content is still visible.
\<close>

record world =
  rt :: runtime
  job :: job_state
  events :: "event list"
  final_report_md :: "string option"
  final_report_writes :: nat
  annotations_json :: "jdict option"

definition append_event :: "string \<Rightarrow> jdict \<Rightarrow> world \<Rightarrow> world" where
  "append_event name extra w = w\<lparr>events := events w @ [\<lparr>ev_name = name, ev_data = extra\<rparr>]\<rparr>"

definition mutate_job_state :: "(job_state \<Rightarrow> job_state) \<Rightarrow> world \<Rightarrow> world" where
  \<comment> \<open>The job record of a running job exists: nothing in the program deletes it.\<close>
  "mutate_job_state fn w = w\<lparr>job := fn (job w)\<rparr>"

definition record_tool :: "string \<Rightarrow> world \<Rightarrow> world" where
  "record_tool name w =
     w\<lparr>rt := (rt w)\<lparr>tool_counts :=
          AList.update name
            ((case map_of (tool_counts (rt w)) name of None \<Rightarrow> 0 | Some n \<Rightarrow> n) + 1)
            (tool_counts (rt w))\<rparr>\<rparr>"

definition annotation_count_rt :: "world \<Rightarrow> int" where
  "annotation_count_rt w = int (length (annotations (rt w)))"

definition sync_state_usage :: "token_usage \<Rightarrow> world \<Rightarrow> world" where
  "sync_state_usage token_usage w =
     mutate_job_state (\<lambda>j. j\<lparr>
        usage := \<lparr>token = token_usage,
                  tool = \<lparr>tool_total_calls = sum_list (map snd (tool_counts (rt w))),
                          distinct_tools = int (length (tool_counts (rt w))),
                          per_tool = tool_counts (rt w)\<rparr>,
                  paper_search = paper_search_usage (rt w)\<rparr>,
        annotation_count := annotation_count_rt w\<rparr>) w"

definition jopt :: "string option \<Rightarrow> json" where
  "jopt v = (case v of None \<Rightarrow> JNull | Some s \<Rightarrow> JStr s)"

definition usage_dump :: "paper_search_usage \<Rightarrow> json" where
  \<comment> \<open>\<open>usage.model_dump()\<close>\<close>
  "usage_dump u = JDict
     [(''total_calls'', JInt (total_calls u)), (''successful_calls'', JInt (successful_calls u)),
      (''effective_calls'', JInt (effective_calls u)), (''papers_found'', JInt (papers_found u)),
      (''distinct_queries'', JInt (distinct_queries u))]"

definition annotation_dump :: "annotation_item \<Rightarrow> json" where
  "annotation_dump a = JDict
     [(''id'', JStr (ann_id a)), (''page'', JInt (ann_page a)),
      (''start_line'', JInt (ann_start_line a)), (''end_line'', JInt (ann_end_line a)),
      (''text'', JStr (ann_text a)), (''comment'', JStr (ann_comment a)),
      (''summary'', jopt (ann_summary a)), (''object_type'', JStr (ann_object_type a)),
      (''severity'', jopt (ann_severity a))]"

definition persist_annotations :: "token_usage \<Rightarrow> world \<Rightarrow> world" where
  "persist_annotations token_usage w =
     sync_state_usage token_usage
       (w\<lparr>annotations_json := Some
            [(''annotations'', JList (map annotation_dump (annotations (rt w)))),
             (''count'', JInt (int (length (annotations (rt w)))))]\<rparr>)"

definition set_final_markdown :: "string \<Rightarrow> world \<Rightarrow> world" where
  "set_final_markdown markdown w =
     mutate_job_state (\<lambda>j. j\<lparr>
          final_report_ready := True,
          artifacts := (artifacts j)\<lparr>final_markdown_path := Some (job_dir (rt w) @ ''/final_report.md'')\<rparr>,
          annotation_count := annotation_count_rt w\<rparr>)
       (w\<lparr>final_report_md := Some markdown,
          final_report_writes := Suc (final_report_writes w),
          rt := (rt w)\<lparr>final_markdown_text := Some markdown\<rparr>\<rparr>)"

section \<open>The PDF tools (tools/review_tools.py)\<close>

definition flatten_page_index :: "(int \<times> string list) list \<Rightarrow> (int \<times> int \<times> string) list" where
  "flatten_page_index pi =
     concat (map (\<lambda>page.
        (let lines = (case map_of pi page of None \<Rightarrow> [] | Some ls \<Rightarrow> ls)
         in map (\<lambda>(i, text). (page, int (Suc i), text)) (zip [0..<length lines] lines)))
       (sort (map fst pi)))"

function count_from :: "string \<Rightarrow> string \<Rightarrow> nat" where
  \<comment> \<open>\<open>s.count(sub)\<close> for a non-empty \<open>sub\<close>: occurrences that do not overlap, from the left.\<close>
  "count_from sub s =
     (if s = [] \<or> sub = [] then 0
      else if prefix sub s then Suc (count_from sub (drop (length sub) s))
      else count_from sub (tl s))"
  by pat_completeness auto
termination
  by (relation "measure (\<lambda>(sub, s). length s)") (auto simp: neq_Nil_conv)

declare count_from.simps [simp del]

definition py_count :: "string \<Rightarrow> string \<Rightarrow> nat" where
  "py_count sub s = (if sub = [] then Suc (length s) else count_from sub s)"

definition search_tokens :: "string \<Rightarrow> string list" where
  \<comment> \<open>The non-empty pieces of \<open>re.split(r'\s+', text.lower())\<close>, or the whole text.\<close>
  "search_tokens text =
     (let tokens = py_split (py_lower text) in if tokens = [] then [py_lower text] else tokens)"

definition line_score :: "string \<Rightarrow> string \<Rightarrow> int option" where
  \<comment> \<open>The score of one line, \<open>None\<close> when the line is skipped.\<close>
  "line_score text line_text =
     (let hay = py_lower line_text;
          score = int (sum_list (map (\<lambda>tok. py_count tok hay) (search_tokens text)))
      in if score \<le> 0 \<and> \<not> py_contains (py_lower text) hay then None
         else if score \<le> 0 then Some 1 else Some score)"

definition scored_rows :: "(int \<times> string list) list \<Rightarrow> string \<Rightarrow> (int \<times> int \<times> int \<times> string) list" where
  "scored_rows pi text =
     concat (map (\<lambda>(page, line_no, line_text).
        (case line_score text line_text of
           None \<Rightarrow> [] | Some score \<Rightarrow> [(score, page, line_no, line_text)]))
       (flatten_page_index pi))"

definition hit_key :: "int \<times> int \<times> int \<times> string \<Rightarrow> int \<times> int \<times> int" where
  "hit_key item = (case item of (s, p, ln, t) \<Rightarrow> (- s, p, ln))"

definition hit_limit :: "int \<Rightarrow> nat" where
  \<comment> \<open>\<open>max(1, min(50, int(top_k or 8)))\<close>\<close>
  "hit_limit top_k = nat (max 1 (min 50 (if top_k = 0 then 8 else top_k)))"

definition search_hits :: "(int \<times> string list) list \<Rightarrow> string \<Rightarrow> int \<Rightarrow> (int \<times> int \<times> int \<times> string) list" where
  "search_hits pi text top_k = take (hit_limit top_k) (sort_key hit_key (scored_rows pi text))"

definition hit_json :: "int \<times> int \<times> int \<times> string \<Rightarrow> json" where
  "hit_json item = (case item of (s, p, ln, t) \<Rightarrow>
     JDict [(''page'', JInt p), (''line'', JInt ln), (''score'', JInt s), (''text'', JStr t)])"

definition pdf_search :: "token_usage \<Rightarrow> string \<Rightarrow> int \<Rightarrow> world \<Rightarrow> jdict \<times> world" where
  "pdf_search tu query top_k w0 =
     (let w = record_tool ''pdf_search'' w0; text = py_strip query in
      if text = [] then
        ([(''status'', JStr ''error''), (''reason'', JStr ''empty_query''),
          (''message'', JStr ''query is required'')], sync_state_usage tu w)
      else
        (let hits = search_hits (page_index (rt w)) text top_k in
         ([(''status'', JStr ''ok''), (''query'', JStr text),
           (''count'', JInt (int (length hits))), (''hits'', JList (map hit_json hits))],
          sync_state_usage tu w)))"

definition page_not_found :: "int \<Rightarrow> jdict" where
  "page_not_found page =
     [(''status'', JStr ''error''), (''reason'', JStr ''page_not_found''),
      (''message'', JStr (''Page '' @ str_of_int page @ '' not found''))]"

definition line_span :: "string list \<Rightarrow> int \<Rightarrow> int \<Rightarrow> int \<times> int \<times> string list" where
  \<comment> \<open>\<open>start\<close>, \<open>end_idx\<close> and \<open>lines[start - 1:end_idx]\<close>\<close>
  "line_span lines start_line end_line =
     (let start = max 1 start_line; end = max start end_line;
          end_idx = min (int (length lines)) end
      in (start, end_idx, take (nat (end_idx - (start - 1))) (drop (nat (start - 1)) lines)))"

definition pdf_read_lines :: "token_usage \<Rightarrow> int \<Rightarrow> int \<Rightarrow> int \<Rightarrow> world \<Rightarrow> jdict \<times> world" where
  "pdf_read_lines tu page start_line end_line w0 =
     (let w = record_tool ''pdf_read_lines'' w0;
          lines = (case map_of (page_index (rt w)) page of None \<Rightarrow> [] | Some ls \<Rightarrow> ls) in
      if lines = [] then (page_not_found page, sync_state_usage tu w)
      else (case line_span lines start_line end_line of (start, end_idx, snippet) \<Rightarrow>
        ([(''status'', JStr ''ok''), (''page'', JInt page), (''start_line'', JInt start),
          (''end_line'', JInt end_idx),
          (''lines'', JList (map (\<lambda>(i, line). JDict [(''line'', JInt (start + int i)), (''text'', JStr line)])
                               (zip [0..<length snippet] snippet))),
          (''text'', JStr (py_join [CHR 0x0A] snippet))],
         sync_state_usage tu w)))"

definition pdf_jump :: "token_usage \<Rightarrow> int \<Rightarrow> world \<Rightarrow> jdict \<times> world" where
  "pdf_jump tu page w0 =
     (let w = record_tool ''pdf_jump'' w0;
          lines = (case map_of (page_index (rt w)) page of None \<Rightarrow> [] | Some ls \<Rightarrow> ls) in
      if lines = [] then (page_not_found page, sync_state_usage tu w)
      else ([(''status'', JStr ''ok''), (''page'', JInt page),
             (''line_count'', JInt (int (length lines))),
             (''preview'', JList (map JStr (take 8 lines)))],
            sync_state_usage tu w))"

definition mcp_status_update ::
  "token_usage \<Rightarrow> string \<Rightarrow> string option \<Rightarrow> string option \<Rightarrow> string option \<Rightarrow> world \<Rightarrow> jdict \<times> world" where
  "mcp_status_update tu step done blocked todo w0 =
     (let w = record_tool ''mcp_status_update'' w0;
          opt = (\<lambda>v. py_strip (case v of None \<Rightarrow> [] | Some s \<Rightarrow> s));
          row = [(''step'', JStr (py_strip step)), (''completed'', JStr (opt done)),
                 (''blocked'', JStr (opt blocked)), (''todo'', JStr (opt todo))];
          w1 = w\<lparr>rt := (rt w)\<lparr>status_updates := status_updates (rt w) @ [row]\<rparr>\<rparr>;
          w2 = mutate_job_state (\<lambda>j. j\<lparr>
                 metadata := AList.update ''last_status_update'' (JDict row) (metadata j),
                 message := ''Agent progress: '' @
                    (if py_strip step = [] then ''updating'' else py_strip step)\<rparr>) w1;
          w3 = append_event ''agent_status_update'' row w2
      in ([(''status'', JStr ''ok''), (''status_update'', JDict row)], sync_state_usage tu w3))"


definition REVIEW_RECOMMENDED_ANNOTATION_MIN :: int where
  "REVIEW_RECOMMENDED_ANNOTATION_MIN = 12"

definition REVIEW_RECOMMENDED_ANNOTATION_MAX :: int where
  "REVIEW_RECOMMENDED_ANNOTATION_MAX = 25"

definition build_annotation_gate_hint :: "int \<Rightarrow> int \<Rightarrow> string" where
  "build_annotation_gate_hint calls required_calls =
     (if calls \<ge> required_calls then
        ''paper_search total calls so far: '' @ str_of_int calls @ '' (>= '' @
        str_of_int required_calls @ ''). '' @
        ''You can now start paragraph-by-paragraph PDF annotation.''
      else
        ''paper_search total calls so far: '' @ str_of_int calls @ ''. '' @
        ''Run at least '' @ str_of_int (max 0 (required_calls - calls)) @
        '' more paper_search call(s) before starting pdf_annotate.'')"

definition build_annotation_progress_hint :: "int \<Rightarrow> int \<Rightarrow> int \<Rightarrow> int \<Rightarrow> string" where
  "build_annotation_progress_hint total_annotations final_trigger_min recommended_min recommended_max =
     (if total_annotations < final_trigger_min then
        ''Current review annotations: '' @ str_of_int total_annotations @ ''. '' @
        ''Final-report gate requires >= '' @ str_of_int final_trigger_min @ ''; add about '' @
        str_of_int (final_trigger_min - total_annotations) @ '' more.''
      else if total_annotations < recommended_min then
        ''Current review annotations: '' @ str_of_int total_annotations @ ''. '' @
        ''Final-report trigger is satisfied; usual quality range is '' @
        str_of_int recommended_min @ ''-'' @ str_of_int recommended_max @ ''.''
      else if total_annotations > recommended_max then
        ''Current review annotations: '' @ str_of_int total_annotations @ '' (> '' @
        str_of_int recommended_max @ ''). '' @
        ''Prefer consolidating high-impact findings and avoid low-value over-annotation.''
      else
        ''Current review annotations: '' @ str_of_int total_annotations @ '' '' @
        ''(within recommended range '' @ str_of_int recommended_min @ ''-'' @
        str_of_int recommended_max @ '').'')"

definition annotate_gate_error :: "int \<Rightarrow> int \<Rightarrow> json \<Rightarrow> jdict" where
  "annotate_gate_error current_search_calls required_search_calls usage_payload =
     [(''status'', JStr ''error''),
      (''reason'', JStr ''paper_search_calls_not_met''),
      (''message'', JStr (''Cannot start pdf_annotate yet: paper_search total calls='' @
          str_of_int current_search_calls @ '', required >= '' @
          str_of_int required_search_calls @ ''.'')),
      (''next_steps'', JList
         [JStr (''Run paper_search until total calls reach '' @ str_of_int required_search_calls @ ''+.''),
          JStr ''Then retry pdf_annotate on the same paragraph span.'']),
      (''retry_required'', JBool True),
      (''retry_tool'', JStr ''pdf_annotate''),
      (''paper_search_usage'', usage_payload),
      (''required_paper_search_calls'', JInt required_search_calls)]"

definition annotate_ok_payload :: "annotation_item \<Rightarrow> int \<Rightarrow> int \<Rightarrow> int \<Rightarrow> json \<Rightarrow> jdict" where
  "annotate_ok_payload ann page total_annotations required_annotations usage_payload =
     (let progress_hint = build_annotation_progress_hint total_annotations required_annotations
            REVIEW_RECOMMENDED_ANNOTATION_MIN REVIEW_RECOMMENDED_ANNOTATION_MAX;
          can_start_final = (total_annotations \<ge> required_annotations);
          pdf_annotate_usage = JDict
            [(''total_calls'', JInt total_annotations),
             (''hard_minimum_calls_for_final_report'', JInt required_annotations),
             (''hard_minimum_met'', JBool can_start_final),
             (''can_start_final_consolidation'', JBool can_start_final),
             (''note'', JStr (''Hard minimum is not sufficient by itself. '' @
                ''Use page-level coverage and quality judgment before final submission.''))];
          pdf_annotate_hint =
            (if can_start_final then
               ''pdf_annotate total calls so far: '' @ str_of_int total_annotations @
               '' (hard minimum >= '' @ str_of_int required_annotations @ '' is met). '' @
               ''Do not decide final submission by count alone; self-check coverage and then decide.''
             else
               ''pdf_annotate total calls so far: '' @ str_of_int total_annotations @ ''. '' @
               ''Continue step-by-step annotation for at least '' @
               str_of_int (required_annotations - total_annotations) @ '' more call(s). '' @
               ''After reaching the hard minimum, still self-check coverage before final submission.'');
          recommended = str_of_int REVIEW_RECOMMENDED_ANNOTATION_MIN @ ''-'' @
                        str_of_int REVIEW_RECOMMENDED_ANNOTATION_MAX;
          annotation_progress = JDict
            [(''total_review_annotations'', JInt total_annotations),
             (''recommended_total_range'', JDict
                [(''min'', JInt REVIEW_RECOMMENDED_ANNOTATION_MIN),
                 (''max'', JInt REVIEW_RECOMMENDED_ANNOTATION_MAX)]),
             (''ready_for_final_report'', JBool can_start_final),
             (''final_report_trigger_min'', JInt required_annotations)]
      in [(''status'', JStr ''ok''),
          (''success'', JBool True),
          (''annotation_id'', JStr (ann_id ann)),
          (''annotation_count'', JInt total_annotations),
          (''message'', JStr (''Tool call succeeded: PDF annotation has been saved. '' @
              progress_hint @ '' '' @ pdf_annotate_hint)),
          (''created_message'', JStr (''Created highlight on page '' @ str_of_int page)),
          (''progress_hint'', JStr progress_hint),
          (''pdf_annotate_hint'', JStr pdf_annotate_hint),
          (''annotation_progress'', annotation_progress),
          (''pdf_annotate_usage'', pdf_annotate_usage),
          (''next_action'', JStr ''self_check_annotation_coverage_then_decide''),
          (''completion_gate'', JDict
             [(''recommended_total_annotations'', JStr recommended),
              (''hard_minimum_final_report_annotations'', JInt required_annotations),
              (''main_body_annotations_per_page'', JStr ''1-4''),
              (''appendix_annotations_per_two_pages'', JStr ''1''),
              (''final_tool'', JStr ''review_final_markdown_write''),
              (''ready_for_final_report'', JBool can_start_final)]),
          (''object_type'', JStr (ann_object_type ann)),
          (''severity'', jopt (ann_severity ann)),
          (''summary'', jopt (ann_summary ann)),
          (''paper_search_usage'', usage_payload)])"

text \<open>
  The arguments of \<open>pdf_annotate\<close>; \<open>aa_new_id\<close> is the value \<open>uuid4()\<close> returns in
  this call.
\<close>

record annotate_args =
  aa_page :: int
  aa_start_line :: int
  aa_end_line :: int
  aa_comment :: string
  aa_summary :: "string option"
  aa_object_type :: string
  aa_severity :: "string option"
  aa_new_id :: string

definition strip_if_given :: "string option \<Rightarrow> string option" where
  \<comment> \<open>\<open>str(v).strip() if v else None\<close>\<close>
  "strip_if_given v = (case v of None \<Rightarrow> None | Some s \<Rightarrow> if s = [] then None else Some (py_strip s))"

definition pdf_annotate :: "token_usage \<Rightarrow> annotate_args \<Rightarrow> world \<Rightarrow> jdict \<times> world" where
  "pdf_annotate tu a w0 =
     (let w = record_tool ''pdf_annotate'' w0;
          required_search_calls = max 0 (min_paper_search_calls_for_pdf_annotate (rt_settings (rt w)));
          current_search_calls = max 0 (total_calls (paper_search_usage (rt w)));
          usage_payload = usage_dump (paper_search_usage (rt w))
      in
      if current_search_calls < required_search_calls then
        (annotate_gate_error current_search_calls required_search_calls usage_payload,
         sync_state_usage tu w)
      else
        (let lines = (case map_of (page_index (rt w)) (aa_page a) of None \<Rightarrow> [] | Some ls \<Rightarrow> ls) in
         if lines = [] then (page_not_found (aa_page a), sync_state_usage tu w)
         else (case line_span lines (aa_start_line a) (aa_end_line a) of (start, end_idx, snippet) \<Rightarrow>
           (let text = py_strip (py_join [CHR 0x0A] snippet) in
            if text = [] then
              ([(''status'', JStr ''error''), (''reason'', JStr ''empty_span''),
                (''message'', JStr ''Selected span is empty; choose a valid line range.'')],
               sync_state_usage tu w)
            else if py_strip (aa_comment a) = [] then
              ([(''status'', JStr ''error''), (''reason'', JStr ''comment_required''),
                (''message'', JStr ''comment is required'')],
               sync_state_usage tu w)
            else
              (let ann = \<lparr>ann_id = aa_new_id a, ann_page = aa_page a, ann_start_line = start,
                          ann_end_line = end_idx, ann_text = text,
                          ann_comment = py_strip (aa_comment a),
                          ann_summary = strip_if_given (aa_summary a),
                          ann_object_type =
                            (let t = py_strip (if aa_object_type a = [] then ''suggestion''
                                               else aa_object_type a)
                             in if t = [] then ''suggestion'' else t),
                          ann_severity = strip_if_given (aa_severity a)\<rparr>;
                   w1 = w\<lparr>rt := (rt w)\<lparr>annotations := annotations (rt w) @ [ann]\<rparr>\<rparr>;
                   w2 = persist_annotations tu w1;
                   w3 = append_event ''annotation_created''
                          [(''annotation_id'', JStr (ann_id ann)), (''page'', JInt (ann_page ann)),
                           (''start_line'', JInt (ann_start_line ann)),
                           (''end_line'', JInt (ann_end_line ann)),
                           (''object_type'', JStr (ann_object_type ann)),
                           (''severity'', jopt (ann_severity ann))] w2;
                   total_annotations = annotation_count_rt w3;
                   required_annotations = max 1 (min_annotations_for_final (rt_settings (rt w)))
               in (annotate_ok_payload ann (aa_page a) total_annotations required_annotations
                     usage_payload, w3))))))"

section \<open>Paper search (adapters/paper_search.py, tools/review_tools.py)\<close>

definition normalize_signature :: "string \<Rightarrow> string" where
  "normalize_signature text = py_join '' '' (py_split (py_lower (py_strip text)))"

definition strip_chars :: "(char \<Rightarrow> bool) \<Rightarrow> string \<Rightarrow> string" where
  \<comment> \<open>\<open>s.strip(chars)\<close>\<close>
  "strip_chars P s = rev (dropWhile P (rev (dropWhile P s)))"

definition bullet_char :: "char \<Rightarrow> bool" where
  \<comment> \<open>The characters of \<open>'-\<bullet> \t'\<close> below code point 256.\<close>
  "bullet_char c = (c = CHR ''-'' \<or> c = CHR '' '' \<or> c = CHR 0x09)"

fun dedupe_questions :: "string list \<Rightarrow> string list \<Rightarrow> string list" where
  \<comment> \<open>The loop that fills \<open>cleaned\<close>; the first argument is \<open>seen\<close>.\<close>
  "dedupe_questions seen [] = []"
| "dedupe_questions seen (item # items) =
     (let normalized = py_join '' '' (py_split item) in
      if normalized = [] then dedupe_questions seen items
      else if py_lower normalized \<in> set seen then dedupe_questions seen items
      else normalized # dedupe_questions (py_lower normalized # seen) items)"

text \<open>
  \<open>json.loads\<close> is a library function: the model takes it as the parameter
  \<open>json_loads\<close>, with \<open>None\<close> for a text it rejects.
\<close>

definition nonblank_strs :: "json list \<Rightarrow> string list" where
  \<comment> \<open>\<open>str(item).strip() for item in xs if str(item).strip()\<close>\<close>
  "nonblank_strs xs = filter (\<lambda>t. t \<noteq> []) (map (\<lambda>item. py_strip (py_str item)) xs)"

definition normalize_question_list ::
  "(string \<Rightarrow> json option) \<Rightarrow> section_value option \<Rightarrow> string list" where
  "normalize_question_list json_loads raw =
     (let raw_items =
        (case raw of
           None \<Rightarrow> []
         | Some (SList xs) \<Rightarrow> nonblank_strs (map JStr xs)
         | Some (SText t) \<Rightarrow>
             (let text = py_strip t in
              if text = [] then []
              else (case json_loads text of
                      Some (JList parsed) \<Rightarrow> nonblank_strs parsed
                    | _ \<Rightarrow> filter (\<lambda>l. l \<noteq> [])
                             (map (strip_chars bullet_char) (py_splitlines text)))))
      in take 3 (dedupe_questions [] raw_items))"

fun digits_value :: "nat \<Rightarrow> string \<Rightarrow> nat option" where
  \<comment> \<open>Decimal digits, with single underscores between digits.\<close>
  "digits_value acc [] = Some acc"
| "digits_value acc (c # cs) =
     (if CHR ''0'' \<le> c \<and> c \<le> CHR ''9'' then digits_value (acc * 10 + (of_char c - 48)) cs
      else if c = CHR ''_'' then
        (case cs of [] \<Rightarrow> None
         | d # ds \<Rightarrow> if CHR ''0'' \<le> d \<and> d \<le> CHR ''9'' then digits_value acc cs else None)
      else None)"

definition int_of_str :: "string \<Rightarrow> int option" where
  \<comment> \<open>\<open>int(s)\<close> of a \<open>str\<close>, \<open>None\<close> for \<open>ValueError\<close>.\<close>
  "int_of_str s =
     (let t = py_strip s;
          neg = (t \<noteq> [] \<and> hd t = CHR ''-'');
          body = (if t \<noteq> [] \<and> (hd t = CHR ''-'' \<or> hd t = CHR ''+'') then tl t else t)
      in if body = [] \<or> \<not> (CHR ''0'' \<le> hd body \<and> hd body \<le> CHR ''9'') then None
         else map_option (\<lambda>n. if neg then - int n else int n) (digits_value 0 body))"

fun py_int :: "json \<Rightarrow> int option" where
  \<comment> \<open>\<open>int(v)\<close>, \<open>None\<close> when it raises.\<close>
  "py_int (JInt n) = Some n"
| "py_int (JBool b) = Some (if b then 1 else 0)"
| "py_int (JStr s) = int_of_str s"
| "py_int _ = None"

definition int_or_0 :: "json \<Rightarrow> int option" where
  \<comment> \<open>\<open>int(v or 0)\<close>\<close>
  "int_or_0 v = py_int (py_or v (JInt 0))"

fun is_dict :: "json \<Rightarrow> bool" where
  "is_dict (JDict d) = True"
| "is_dict _ = False"

fun question_results_total :: "json list \<Rightarrow> int" where
  "question_results_total [] = 0"
| "question_results_total (row # rows) =
     (case row of
        JDict d \<Rightarrow> (case int_or_0 (dget d ''count'') of
                      Some n \<Rightarrow> max 0 n + question_results_total rows
                    | None \<Rightarrow> question_results_total rows)
      | _ \<Rightarrow> question_results_total rows)"

definition count_papers :: "jdict \<Rightarrow> int" where
  "count_papers result =
     (let direct = (case int_or_0 (dget result ''count'') of
                      Some n \<Rightarrow> if n > 0 then Some n else None | None \<Rightarrow> None);
          rows = (case dget result ''papers'' of JList papers \<Rightarrow> filter is_dict papers | _ \<Rightarrow> [])
      in case direct of
           Some n \<Rightarrow> n
         | None \<Rightarrow>
             if rows \<noteq> [] then int (length rows)
             else (case dget result ''question_results'' of
                     JList question_results \<Rightarrow> question_results_total question_results
                   | _ \<Rightarrow> 0))"

definition request_failed_result :: "string \<Rightarrow> string \<Rightarrow> string list \<Rightarrow> jdict" where
  \<comment> \<open>The result the tool builds when the adapter raises; \<open>err\<close> is the rendered exception.\<close>
  "request_failed_result err query_text questions =
     [(''success'', JBool False),
      (''reason'', JStr ''paper_search_request_failed''),
      (''error'', JStr err),
      (''message'', JStr ''Paper search request failed before a valid response was returned.''),
      (''query'', JStr query_text),
      (''questions'', JList (map JStr questions)),
      (''papers'', JList []),
      (''count'', JInt 0),
      (''question_results'', JList []),
      (''next_steps'', JList
         [JStr ''Check paper search BASE_URL/ENDPOINT and API key settings.'',
          JStr ''Retry paper_search with the same query once the backend is reachable.'']),
      (''retry_required'', JBool True),
      (''retry_tool'', JStr ''paper_search'')]"

definition discovered_signatures :: "jdict \<Rightarrow> string list" where
  \<comment> \<open>The signatures of \<open>result['questions']\<close>.\<close>
  "discovered_signatures result =
     (case dget result ''questions'' of
        JList discovered \<Rightarrow> map (\<lambda>q. normalize_signature (py_str q)) discovered
      | _ \<Rightarrow> [])"

definition grouped_signatures :: "jdict \<Rightarrow> string list" where
  \<comment> \<open>The signatures of the \<open>question\<close> (or \<open>query\<close>) of each row of \<open>result['question_results']\<close>.\<close>
  "grouped_signatures result =
     (case dget result ''question_results'' of
        JList grouped \<Rightarrow>
          concat (map (\<lambda>row.
            (case row of
               JDict d \<Rightarrow>
                 (let q = py_strip (py_str (py_or (py_or (dget d ''question'') (dget d ''query'')) (JStr [])))
                  in if q \<noteq> [] then [normalize_signature q] else [])
             | _ \<Rightarrow> [])) grouped)
      | _ \<Rightarrow> [])"

text \<open>
  The arguments of \<open>paper_search\<close>; \<open>ps_outcome\<close> is what the adapter's \<open>search\<close> does in
  this call: \<open>Inl\<close> the rendered exception it raises, \<open>Inr\<close> the dict it returns.
\<close>

record search_args =
  ps_query :: "string option"
  ps_question_list :: "section_value option"
  ps_outcome :: "string + jdict"

definition search_query_text :: "search_args \<Rightarrow> string" where
  "search_query_text a = py_strip (case ps_query a of None \<Rightarrow> [] | Some q \<Rightarrow> q)"

definition search_result :: "(string \<Rightarrow> json option) \<Rightarrow> search_args \<Rightarrow> jdict" where
  "search_result json_loads a =
     (case ps_outcome a of
        Inr result \<Rightarrow> result
      | Inl err \<Rightarrow> request_failed_result err (search_query_text a)
                    (normalize_question_list json_loads (ps_question_list a)))"

definition call_signatures :: "(string \<Rightarrow> json option) \<Rightarrow> search_args \<Rightarrow> string list" where
  \<comment> \<open>Every signature one call adds to \<open>paper_search_signatures\<close>, in the order of the adds.\<close>
  "call_signatures json_loads a =
     (if search_query_text a \<noteq> [] then [normalize_signature (search_query_text a)] else []) @
     map normalize_signature (normalize_question_list json_loads (ps_question_list a)) @
     discovered_signatures (search_result json_loads a) @
     grouped_signatures (search_result json_loads a)"

definition paper_search_payload :: "jdict \<Rightarrow> paper_search_usage \<Rightarrow> int \<Rightarrow> jdict" where
  "paper_search_payload result u required_for_annotate =
     (let tc = max 0 (total_calls u);
          can_start_pdf_annotate = (tc \<ge> required_for_annotate);
          annotation_gate_hint = build_annotation_gate_hint tc required_for_annotate;
          p1 = AList.update ''paper_search_usage'' (usage_dump u) result;
          p2 = AList.update ''required_paper_search_calls_for_pdf_annotate''
                 (JInt required_for_annotate) p1;
          p3 = AList.update ''can_start_pdf_annotate'' (JBool can_start_pdf_annotate) p2;
          p4 = AList.update ''annotation_gate_hint'' (JStr annotation_gate_hint) p3;
          existing_message = py_strip (py_str (py_or (dget p4 ''message'') (JStr [])));
          p5 = (if truthy (dget p4 ''success'') \<or> existing_message = []
                then AList.update ''message'' (JStr annotation_gate_hint) p4 else p4);
          p6 = AList.update ''next_action''
                 (JStr (if can_start_pdf_annotate then ''start_pdf_annotate''
                        else ''continue_paper_search'')) p5
      in AList.update ''next_steps''
           (JList (if can_start_pdf_annotate then
              [JStr ''Start paragraph-by-paragraph annotation with `pdf_search -> pdf_read_lines -> pdf_annotate`.'',
               JStr (''Before each next annotation, perform detailed reasoning on the target text: '' @
                     ''confirm the issue is real and confirm it has a concrete fix path.''),
               JStr ''Create at least 10 section/paragraph annotations; usual target range is 12-25 before final report submission.'']
            else
              [JStr (''Run more paper_search calls until total calls reach '' @
                     str_of_int required_for_annotate @ ''+.''),
               JStr (''After retrieval threshold is met, start step-by-step PDF annotations and '' @
                     ''for each next annotation first verify issue reality and fixability.'')]))
           p6)"

definition str_or_none :: "json \<Rightarrow> json" where
  \<comment> \<open>\<open>str(v or '').strip() or None\<close>\<close>
  "str_or_none v = (let t = py_strip (py_str (py_or v (JStr []))) in if t = [] then JNull else JStr t)"

definition paper_search ::
  "(string \<Rightarrow> json option) \<Rightarrow> token_usage \<Rightarrow> search_args \<Rightarrow> world \<Rightarrow> jdict \<times> world" where
  "paper_search json_loads tu a w0 =
     (let w = record_tool ''paper_search'' w0;
          questions = normalize_question_list json_loads (ps_question_list a);
          query_text = search_query_text a;
          result = search_result json_loads a;
          success = truthy (dget result ''success'');
          paper_count = count_papers result;
          u0 = paper_search_usage (rt w);
          u1 = u0\<lparr>total_calls := total_calls u0 + 1\<rparr>;
          u2 = (if success then u1\<lparr>successful_calls := successful_calls u1 + 1\<rparr> else u1);
          u3 = (if success \<and> paper_count > 0
                then u2\<lparr>effective_calls := effective_calls u2 + 1,
                        papers_found := papers_found u2 + paper_count\<rparr>
                else u2);
          sigs = paper_search_signatures (rt w) \<union> set (call_signatures json_loads a);
          u4 = u3\<lparr>distinct_queries := int (card {s \<in> sigs. s \<noteq> []})\<rparr>;
          w1 = w\<lparr>rt := (rt w)\<lparr>paper_search_usage := u4, paper_search_signatures := sigs\<rparr>\<rparr>;
          w2 = sync_state_usage tu w1;
          w3 = append_event ''paper_search_called''
                 [(''query'', JStr query_text), (''questions'', JList (map JStr questions)),
                  (''success'', JBool success), (''count'', JInt paper_count),
                  (''distinct_queries'', JInt (distinct_queries u4)),
                  (''reason'', str_or_none (dget result ''reason'')),
                  (''message'', str_or_none (dget result ''message''))] w2;
          required_for_annotate = max 0 (min_paper_search_calls_for_pdf_annotate (rt_settings (rt w)))
      in (paper_search_payload result u4 required_for_annotate, w3))"

text \<open>
  \<open>read_paper\<close>: \<open>outcome\<close> is what the adapter's \<open>read_papers\<close> does, \<open>None\<close> when it
  raises (the tool has no handler, and the exception leaves the tool after the call was
  counted).
\<close>

definition read_paper :: "token_usage \<Rightarrow> json list \<Rightarrow> jdict option \<Rightarrow> world \<Rightarrow> jdict option \<times> world" where
  "read_paper tu items outcome w0 =
     (let w = record_tool ''read_paper'' w0; rows = filter is_dict items in
      if rows = [] then
        (Some [(''status'', JStr ''error''), (''reason'', JStr ''empty_items''),
               (''message'', JStr ''items is required'')], sync_state_usage tu w)
      else (case outcome of
              None \<Rightarrow> (None, w)
            | Some result \<Rightarrow>
                (Some result,
                 append_event ''read_paper_called''
                   [(''item_count'', JInt (int (length rows))),
                    (''success'', JBool (truthy (dget result ''success'')))]
                   (sync_state_usage tu w))))"

definition question_prompt :: "token_usage \<Rightarrow> string \<Rightarrow> string list option \<Rightarrow> world \<Rightarrow> jdict \<times> world" where
  "question_prompt tu question options w0 =
     (let w = record_tool ''question_prompt'' w0 in
      ([(''status'', JStr ''not_available''),
        (''message'', JStr ''No interactive question channel is available in this CLI backend mode.''),
        (''question'', JStr (py_strip question)),
        (''options'', JList (map JStr (filter (\<lambda>x. x \<noteq> [])
            (map py_strip (case options of None \<Rightarrow> [] | Some xs \<Rightarrow> xs)))))],
       sync_state_usage tu w))"


section \<open>Final-report validation (report/final_report.py)\<close>

record language_stats =
  primary_language :: string
  english_words :: int
  chinese_chars :: int

record final_report_validation =
  ok :: bool
  reason :: "string option"
  vmessage :: string
  stats :: language_stats
  missing_sections :: "string list"

text \<open>
  Only the aliases written in ASCII are listed: a Chinese alias has code points beyond
  255 and is a substring of no text of the model.
\<close>

definition REQUIRED_SECTION_GROUPS :: "(string \<times> string list) list" where
  "REQUIRED_SECTION_GROUPS =
    [(''Summary'', [''summary'']),
     (''Strengths'', [''strengths'']),
     (''Weaknesses'', [''weaknesses'']),
     (''Key Issues'', [''key issues'']),
     (''Actionable Suggestions'', [''actionable suggestions'']),
     (''Storyline Options + Writing Outlines'', [''storyline options'', ''writing outlines'']),
     (''Priority Revision Plan'', [''priority revision plan'']),
     (''Experiment Inventory & Research Experiment Plan'',
        [''experiment inventory'', ''research experiment plan'']),
     (''Novelty Verification & Related-Work Matrix'',
        [''novelty verification'', ''related-work matrix'']),
     (''References'', [''references'', ''reference'']),
     (''Scores'', [''scores'', ''final score''])]"

definition extract_markdown_headings :: "string \<Rightarrow> string list" where
  "extract_markdown_headings markdown_text =
     concat (map (\<lambda>line.
        (let stripped = py_strip line in
         if \<not> prefix ''#'' stripped then []
         else (let text = py_lower (py_strip (dropWhile (\<lambda>c. c = CHR ''#'') stripped))
               in if text \<noteq> [] then [text] else [])))
       (py_splitlines markdown_text))"

definition find_missing_required_sections :: "string \<Rightarrow> string list" where
  "find_missing_required_sections markdown_text =
     (let headings = extract_markdown_headings markdown_text in
      if headings = [] then map fst REQUIRED_SECTION_GROUPS
      else map fst (filter (\<lambda>(label, aliases).
             \<not> list_ex (\<lambda>alias. list_ex (\<lambda>heading. py_contains alias heading) headings) aliases)
           REQUIRED_SECTION_GROUPS))"

text \<open>
  \<open>analyze_report_language\<close> counts English words and Chinese characters with regular
  expressions over the sanitised text. Nothing below depends on how it counts, so the
  model takes it as the parameter \<open>analyze\<close> and every result holds for each such function.
\<close>

definition validate_final_report ::
  "(string \<Rightarrow> language_stats) \<Rightarrow> string \<Rightarrow> int \<Rightarrow> int \<Rightarrow> bool \<Rightarrow> final_report_validation" where
  "validate_final_report analyze markdown min_english_words min_chinese_chars force_english =
     (let text = py_strip markdown in
      if text = [] then
        \<lparr>ok = False, reason = Some ''markdown_required'',
         vmessage = ''Final report markdown is empty.'', stats = analyze [],
         missing_sections = map fst REQUIRED_SECTION_GROUPS\<rparr>
      else
        (let missing = find_missing_required_sections text; st = analyze text in
         if force_english \<and> chinese_chars st > 0 then
           \<lparr>ok = False, reason = Some ''english_required'',
            vmessage = ''Final report must be written in English only for this deployment.'',
            stats = st, missing_sections = []\<rparr>
         else if missing \<noteq> [] then
           \<lparr>ok = False, reason = Some ''final_report_sections_not_met'',
            vmessage = ''Final report missing required sections: '' @ py_join '', '' missing,
            stats = st, missing_sections = missing\<rparr>
         else if min_english_words > 0 \<and> primary_language st = ''en''
                 \<and> english_words st < min_english_words then
           \<lparr>ok = False, reason = Some ''final_report_length_not_met'',
            vmessage = ''English report is too short: '' @ str_of_int (english_words st) @
               '' words, required >= '' @ str_of_int min_english_words @ ''.'',
            stats = st, missing_sections = []\<rparr>
         else if min_chinese_chars > 0 \<and> primary_language st = ''zh-CN''
                 \<and> chinese_chars st < min_chinese_chars then
           \<lparr>ok = False, reason = Some ''final_report_length_not_met'',
            vmessage = ''Chinese report is too short: '' @ str_of_int (chinese_chars st) @
               '' chars, required >= '' @ str_of_int min_chinese_chars @ ''.'',
            stats = st, missing_sections = []\<rparr>
         else \<lparr>ok = True, reason = None, vmessage = ''ok'', stats = st, missing_sections = []\<rparr>))"

section \<open>The final-write tool (tools/review_tools.py)\<close>

record final_write_args =
  fw_markdown :: "string option"
  fw_summary :: "string option"
  fw_strengths :: "section_value option"
  fw_weaknesses :: "section_value option"
  fw_issues :: "section_value option"
  fw_suggestions :: "section_value option"
  fw_storylines :: "section_value option"
  fw_section_id :: "string option"
  fw_section_title :: "string option"
  fw_section_content :: "section_value option"
  fw_source :: "string option"

definition section_descriptor :: "string \<Rightarrow> json" where
  "section_descriptor section_id =
     JDict [(''id'', JStr section_id), (''title'', JStr (section_title section_id))]"

definition section_descriptor_list :: "string list \<Rightarrow> json" where
  "section_descriptor_list section_ids = JList (map section_descriptor section_ids)"

definition completed_sections_of :: "sections \<Rightarrow> string list" where
  \<comment> \<open>\<open>[k for k in section_order if str(draft.get(k) or '').strip()]\<close>\<close>
  "completed_sections_of draft =
     filter (\<lambda>section_key.
        py_strip (case map_of draft section_key of None \<Rightarrow> [] | Some c \<Rightarrow> c) \<noteq> [])
       required_final_report_section_order"

definition missing_sections_of :: "sections \<Rightarrow> string list" where
  "missing_sections_of draft =
     filter (\<lambda>section_key. section_key \<notin> set (completed_sections_of draft))
       required_final_report_section_order"

definition build_final_report_progress_payload ::
  "string \<Rightarrow> string list \<Rightarrow> string list \<Rightarrow> int \<Rightarrow> json \<Rightarrow> int \<Rightarrow> int \<Rightarrow> int \<Rightarrow>
   string \<Rightarrow> string \<Rightarrow> string \<Rightarrow> bool \<Rightarrow> string list \<Rightarrow> string option \<Rightarrow> jdict" where
  "build_final_report_progress_payload source completed_section_ids missing_section_ids
     n_annotations usage_payload required_paper_search_calls required_annotation_count
     draft_version pstatus preason pmessage retry_required next_steps current_section_id =
     [(''status'', JStr pstatus),
      (''reason'', JStr preason),
      (''message'', JStr pmessage),
      (''task_completed'', JBool False),
      (''source'', JStr source),
      (''draft_version'', JInt (max 1 (if draft_version = 0 then 1 else draft_version))),
      (''required_sections'', section_descriptor_list required_final_report_section_order),
      (''completed_sections'', section_descriptor_list completed_section_ids),
      (''missing_sections'', section_descriptor_list missing_section_ids),
      (''next_required_section'',
         (case missing_section_ids of
            [] \<Rightarrow> JNull
          | next_section_id # rest \<Rightarrow>
              if next_section_id \<noteq> [] then section_descriptor next_section_id else JNull)),
      (''retry_required'', JBool retry_required),
      (''retry_tool'', JStr ''review_final_markdown_write''),
      (''annotation_count'', JInt (max 0 n_annotations)),
      (''required_annotation_count'',
         JInt (max 1 (if required_annotation_count = 0 then 1 else required_annotation_count))),
      (''paper_search_usage'', usage_payload),
      (''required_paper_search_calls'', JInt (max 0 required_paper_search_calls))] @
     (case current_section_id of
        None \<Rightarrow> []
      | Some c \<Rightarrow> if c \<noteq> [] then [(''current_section'', section_descriptor c)] else []) @
     (if next_steps \<noteq> [] then
        [(''next_steps'', JList (map JStr (filter (\<lambda>t. t \<noteq> []) (map py_strip next_steps))))]
      else [])"

definition return_final_write_failure :: "token_usage \<Rightarrow> int \<Rightarrow> jdict \<Rightarrow> world \<Rightarrow> jdict \<times> world" where
  "return_final_write_failure tu attempt_no payload w =
     (payload,
      append_event ''final_report_write_failed''
        [(''attempt'', JInt attempt_no),
         (''reason'', JStr (py_strip (py_str (py_or (dget payload ''reason'') (JStr []))))),
         (''message'', JStr (py_strip (py_str (py_or (dget payload ''message'') (JStr []))))),
         (''annotation_count'', JInt (annotation_count_rt w)),
         (''paper_search_usage'', usage_dump (paper_search_usage (rt w))),
         (''missing_sections'', dget payload ''missing_sections''),
         (''language'', dget payload ''language''),
         (''english_words'', dget payload ''english_words''),
         (''chinese_chars'', dget payload ''chinese_chars'')]
        (sync_state_usage tu w))"

definition section_id_or_title :: "final_write_args \<Rightarrow> string" where
  \<comment> \<open>\<open>section_id or section_title\<close>, with the empty text for a falsy result.\<close>
  "section_id_or_title a =
     (case fw_section_id a of
        Some s \<Rightarrow> if s \<noteq> [] then s else (case fw_section_title a of None \<Rightarrow> [] | Some t \<Rightarrow> t)
      | None \<Rightarrow> (case fw_section_title a of None \<Rightarrow> [] | Some t \<Rightarrow> t))"

definition legacy_and_markdown_sections :: "final_write_args \<Rightarrow> sections" where
  \<comment> \<open>\<open>incoming_sections\<close> before the section-mode pair is looked at.\<close>
  "legacy_and_markdown_sections a =
     (let raw_markdown_input = coerce_markdown_text (fw_markdown a);
          incoming = build_sections_from_legacy_fields (fw_summary a) (fw_strengths a)
                       (fw_weaknesses a) (fw_issues a) (fw_suggestions a) (fw_storylines a);
          markdown_sections = extract_required_sections_from_markdown raw_markdown_input
      in if markdown_sections \<noteq> [] then dict_update incoming markdown_sections
         else if raw_markdown_input \<noteq> [] \<and> incoming = []
         then AList.update ''summary'' raw_markdown_input incoming
         else incoming)"

definition section_id_invalid_payload :: jdict where
  "section_id_invalid_payload =
     [(''status'', JStr ''error''),
      (''reason'', JStr ''section_id_invalid''),
      (''message'', JStr (''Unknown section_id/section_title. Use one required section id: '' @
          ''summary, strengths, weaknesses, key_issues, actionable_suggestions, '' @
          ''storyline_options_writing_outlines, priority_revision_plan, '' @
          ''experiment_inventory_research_experiment_plan, novelty_verification_related_work_matrix, '' @
          ''references, scores.'')),
      (''retry_required'', JBool True),
      (''retry_tool'', JStr ''review_final_markdown_write'')]"

definition incoming_sections :: "final_write_args \<Rightarrow> jdict + (sections \<times> string option)" where
  \<comment> \<open>The sections one call brings and the requested section id, or the payload of the
      validation error that ends the call.\<close>
  "incoming_sections a =
     (let incoming = legacy_and_markdown_sections a;
          requested_section_id = resolve_final_report_section_id (section_id_or_title a)
      in case requested_section_id of
           None \<Rightarrow>
             if section_id_or_title a \<noteq> [] then Inl section_id_invalid_payload
             else Inr (incoming, None)
         | Some requested \<Rightarrow>
             (case fw_section_content a of
                None \<Rightarrow>
                  if map_of incoming requested = None then
                    Inl [(''status'', JStr ''error''),
                         (''reason'', JStr ''section_content_required''),
                         (''message'', JStr (''Section '' @ [CHR 0x27] @ section_title requested @
                             [CHR 0x27] @ '' was selected but section_content is empty.'')),
                         (''retry_required'', JBool True),
                         (''retry_tool'', JStr ''review_final_markdown_write''),
                         (''retry_payload_hint'', JDict
                            [(''section_id'', JStr requested),
                             (''section_content'', JStr ''Write this section in markdown.'')])]
                  else Inr (incoming, Some requested)
              | Some content \<Rightarrow>
                  (let requested_content = strip_leading_section_heading requested
                         (py_strip (coerce_section_markdown (Some content)))
                   in if requested_content = [] then
                        Inl [(''status'', JStr ''error''),
                             (''reason'', JStr ''section_content_required''),
                             (''message'', JStr (''Section '' @ [CHR 0x27] @ section_title requested @
                                 [CHR 0x27] @ '' has empty content after normalization.'')),
                             (''retry_required'', JBool True),
                             (''retry_tool'', JStr ''review_final_markdown_write'')]
                      else Inr (AList.update requested requested_content incoming,
                                Some requested))))"

definition section_payload_required_payload :: jdict where
  "section_payload_required_payload =
     [(''status'', JStr ''error''),
      (''reason'', JStr ''section_payload_required''),
      (''message'', JStr ''No report section content was provided and no draft exists.''),
      (''next_steps'', JList
         [JStr ''Submit one section with section_id + section_content.'',
          JStr ''Follow required section order until the tool returns status=ok.'']),
      (''retry_required'', JBool True),
      (''retry_tool'', JStr ''review_final_markdown_write''),
      (''retry_payload_hint'', JDict
         [(''section_id'', JStr ''summary''),
          (''section_content'', JStr ''Write the summary section in markdown.'')])]"

definition already_persisted_payload :: "world \<Rightarrow> int \<Rightarrow> jdict" where
  "already_persisted_payload w required_paper_calls =
     [(''status'', JStr ''ok''),
      (''task_completed'', JBool True),
      (''final_report_persisted'', JBool True),
      (''message'', JStr (''Final report is already persisted. '' @
          ''Stop calling review_final_markdown_write and end this run now.'')),
      (''annotation_count'', JInt (annotation_count_rt w)),
      (''paper_search_usage'', usage_dump (paper_search_usage (rt w))),
      (''required_paper_search_calls'', JInt required_paper_calls),
      (''completed_sections'',
         section_descriptor_list (completed_sections_of (final_report_draft_sections (rt w)))),
      (''missing_sections'', JList []),
      (''next_required_section'', JNull)]"

definition persisted :: "world \<Rightarrow> bool" where
  "persisted w = (case final_markdown_text (rt w) of None \<Rightarrow> False | Some t \<Rightarrow> t \<noteq> [])"

definition first_incoming :: "sections \<Rightarrow> string option" where
  \<comment> \<open>The first section id of the canonical order that is a key of \<open>incoming_sections\<close>.\<close>
  "first_incoming incoming =
     find (\<lambda>candidate. map_of incoming candidate \<noteq> None) required_final_report_section_order"

definition commit_final_report ::
  "(string \<Rightarrow> language_stats) \<Rightarrow> token_usage \<Rightarrow> int \<Rightarrow> string \<Rightarrow> sections \<Rightarrow> int \<Rightarrow>
   string option \<Rightarrow> world \<Rightarrow> jdict \<times> world" where
  \<comment> \<open>The tail of the tool, reached when no required section is missing.\<close>
  "commit_final_report analyze tu attempt_no normalized_source draft_sections draft_version
     current_section_id w =
     (let cfg = rt_settings (rt w);
          u = paper_search_usage (rt w);
          enforce_final_gates = enable_final_gates cfg;
          required_paper_calls = max 0 (min_paper_search_calls_for_final cfg);
          required_distinct_queries = max 0 (min_distinct_paper_queries_for_final cfg);
          required_annotations = max 1 (min_annotations_for_final cfg);
          completed_section_ids = completed_sections_of draft_sections;
          missing_section_ids = missing_sections_of draft_sections;
          progress = (\<lambda>preason pmessage next_steps.
             build_final_report_progress_payload normalized_source completed_section_ids
               missing_section_ids (annotation_count_rt w) (usage_dump u) required_paper_calls
               required_annotations draft_version ''error'' preason pmessage True next_steps
               current_section_id)
      in
      if enforce_final_gates \<and> total_calls u < required_paper_calls then
        return_final_write_failure tu attempt_no
          (progress ''paper_search_calls_not_met''
             (''Insufficient paper_search usage before final submission: '' @
              str_of_int (total_calls u) @ '' call(s) found, '' @
              str_of_int required_paper_calls @ ''+ required.'')
             [''Run paper_search until total calls reach at least '' @
                str_of_int required_paper_calls @ ''.'',
              ''After retrieval and comparison are complete, re-call review_final_markdown_write.'']) w
      else if enforce_final_gates \<and> distinct_queries u < required_distinct_queries then
        return_final_write_failure tu attempt_no
          (progress ''paper_search_distinct_queries_not_met''
             (''Insufficient distinct paper_search coverage before final submission: '' @
              str_of_int (distinct_queries u) @ '' distinct query/question(s) found, '' @
              str_of_int required_distinct_queries @ ''+ required.'')
             [''Add non-duplicate paper_search queries/questions until distinct coverage '' @
                ''reaches '' @ str_of_int required_distinct_queries @ ''.'',
              ''Then re-call review_final_markdown_write after updating novelty and '' @
                ''contribution judgment.'']) w
      else if enforce_final_gates \<and> annotation_count_rt w < required_annotations then
        return_final_write_failure tu attempt_no
          (progress ''annotation_count_not_met''
             (''PDF annotation count is too low: '' @ str_of_int (annotation_count_rt w) @
              '' found, minimum '' @ str_of_int required_annotations @ '' required.'')
             [''Add annotations until count reaches at least '' @
                str_of_int required_annotations @ ''.'',
              ''Then re-call review_final_markdown_write to finalize the saved section draft.'']) w
      else
        (let markdown_text = build_final_report_markdown_from_sections draft_sections in
         if markdown_text = [] then
           return_final_write_failure tu attempt_no
             [(''status'', JStr ''error''),
              (''reason'', JStr ''markdown_required''),
              (''message'', JStr ''Required sections are present but final markdown assembly is empty.''),
              (''retry_required'', JBool True),
              (''retry_tool'', JStr ''review_final_markdown_write'')] w
         else
           (let validation = validate_final_report analyze markdown_text
                  (min_english_words_for_final cfg) (min_chinese_chars_for_final cfg)
                  (force_english_output cfg)
            in
            if \<not> ok validation \<and> enforce_final_gates then
              return_final_write_failure tu attempt_no
                (progress
                   (case reason validation of
                      None \<Rightarrow> ''final_report_validation_failed''
                    | Some r \<Rightarrow> if r = [] then ''final_report_validation_failed'' else r)
                   (if vmessage validation = [] then ''Final report validation failed.''
                    else vmessage validation)
                   [''Update final markdown quality and structure according to tool error.'',
                    ''Re-call review_final_markdown_write after remediation.'']) w
            else
              (let w1 = (if \<not> ok validation then
                           append_event ''final_report_validation_skipped''
                             [(''reason'', jopt (reason validation)),
                              (''message'', JStr (vmessage validation)),
                              (''missing_sections'', JList (map JStr (missing_sections validation))),
                              (''language'', JStr (primary_language (stats validation))),
                              (''english_words'', JInt (english_words (stats validation))),
                              (''chinese_chars'', JInt (chinese_chars (stats validation))),
                              (''final_gates_enforced'', JBool False)] w
                         else w);
                   w2 = sync_state_usage tu (set_final_markdown markdown_text w1);
                   w3 = append_event ''final_report_persisted''
                          [(''source'', JStr normalized_source),
                           (''annotation_count'', JInt (annotation_count_rt w2)),
                           (''paper_search_usage'', usage_dump u),
                           (''completed_sections'', JList (map JStr completed_section_ids)),
                           (''draft_version'', JInt draft_version)] w2;
                   w4 = mutate_job_state (\<lambda>j. j\<lparr>
                          message := ''Final report persisted successfully.'',
                          metadata :=
                            AList.update ''final_report_draft''
                              (JDict [(''sections'', JDict (map (\<lambda>(k, v). (k, JStr v)) draft_sections)),
                                      (''section_order'', JList (map JStr required_final_report_section_order)),
                                      (''completed_sections'', JList (map JStr completed_section_ids)),
                                      (''missing_sections'', JList []),
                                      (''next_required_section'', JNull),
                                      (''status'', JStr ''completed''),
                                      (''source'', JStr normalized_source)])
                            (AList.update ''final_report_draft_version'' (JInt draft_version)
                            (AList.update ''final_report_sections_completed''
                               (JList (map JStr completed_section_ids))
                            (AList.update ''status_updates_count''
                               (JInt (int (length (status_updates (rt w3)))))
                            (AList.update ''final_report_source'' (JStr normalized_source)
                               (metadata j)))))\<rparr>) w3
               in ([(''status'', JStr ''ok''),
                    (''task_completed'', JBool True),
                    (''final_report_persisted'', JBool True),
                    (''auto_composed_from_sections'', JBool True),
                    (''message'', JStr ''Final report persisted successfully. End execution now.''),
                    (''annotation_count'', JInt (annotation_count_rt w4)),
                    (''paper_search_usage'', usage_dump u),
                    (''required_paper_search_calls'', JInt required_paper_calls),
                    (''source'', JStr normalized_source),
                    (''draft_version'', JInt draft_version),
                    (''completed_sections'', section_descriptor_list completed_section_ids),
                    (''missing_sections'', JList []),
                    (''next_required_section'', JNull),
                    (''language'', JStr (primary_language (stats validation))),
                    (''english_words'', JInt (english_words (stats validation))),
                    (''chinese_chars'', JInt (chinese_chars (stats validation))),
                    (''final_gates_enforced'', JBool enforce_final_gates)], w4)))))"

definition draft_saved ::
  "token_usage \<Rightarrow> int \<Rightarrow> string \<Rightarrow> sections \<Rightarrow> int \<Rightarrow> string option \<Rightarrow> world \<Rightarrow> jdict \<times> world" where
  \<comment> \<open>The branch taken when a required section is still missing from the draft.\<close>
  "draft_saved tu attempt_no normalized_source draft_sections draft_version current_section_id w =
     (let cfg = rt_settings (rt w);
          completed_section_ids = completed_sections_of draft_sections;
          missing_section_ids = missing_sections_of draft_sections;
          next_title = (case missing_section_ids of [] \<Rightarrow> [] | m # ms \<Rightarrow> section_title m);
          progress_payload =
            build_final_report_progress_payload normalized_source completed_section_ids
              missing_section_ids (annotation_count_rt w) (usage_dump (paper_search_usage (rt w)))
              (max 0 (min_paper_search_calls_for_final cfg))
              (max 1 (min_annotations_for_final cfg)) draft_version
              ''partial'' ''required_sections_missing''
              (''Section draft saved. '' @ str_of_int (int (length missing_section_ids)) @
               '' required section(s) are still missing. '' @
               ''Next required section: '' @ next_title @ ''.'')
              True
              [''Submit the next section with review_final_markdown_write('' @
                 ''section_id='' @ [CHR 0x27] @ ''<next>'' @ [CHR 0x27] @ '', section_content='' @
                 [CHR 0x27] @ ''<markdown>'' @ [CHR 0x27] @ '').'',
               ''Missing sections: '' @ py_join '', '' (map section_title missing_section_ids) @ ''.'']
              current_section_id
      in (progress_payload,
          append_event ''final_report_draft_saved''
            [(''attempt'', JInt attempt_no),
             (''source'', JStr normalized_source),
             (''completed_sections'', JList (map JStr completed_section_ids)),
             (''missing_sections'', JList (map JStr missing_section_ids)),
             (''next_required_section'',
                (case missing_section_ids of [] \<Rightarrow> JNull | m # ms \<Rightarrow> JStr m)),
             (''draft_version'', JInt draft_version)]
            (sync_state_usage tu w)))"

definition merged_draft :: "sections \<Rightarrow> sections \<Rightarrow> sections" where
  \<comment> \<open>\<open>draft_sections\<close>: the normalised draft of the runtime, updated with the incoming sections.\<close>
  "merged_draft draft incoming =
     (let normalized_draft = normalize_final_report_sections draft in
      if incoming \<noteq> [] then dict_update normalized_draft incoming else normalized_draft)"

definition review_final_markdown_write ::
  "(string \<Rightarrow> language_stats) \<Rightarrow> token_usage \<Rightarrow> final_write_args \<Rightarrow> world \<Rightarrow> jdict \<times> world" where
  "review_final_markdown_write analyze tu a w0 =
     (let w = record_tool ''review_final_markdown_write'' w0;
          attempt_no = (case map_of (tool_counts (rt w)) ''review_final_markdown_write'' of
                          None \<Rightarrow> 0 | Some n \<Rightarrow> n);
          required_paper_calls = max 0 (min_paper_search_calls_for_final (rt_settings (rt w)));
          normalized_source =
            (let t = py_strip (case fw_source a of None \<Rightarrow> [] | Some t \<Rightarrow> t)
             in if t = [] then ''review_annotation_agent'' else t)
      in
      if persisted w then
        (already_persisted_payload w required_paper_calls, sync_state_usage tu w)
      else
        (case incoming_sections a of
           Inl payload \<Rightarrow> return_final_write_failure tu attempt_no payload w
         | Inr (incoming, requested_section_id) \<Rightarrow>
             (let has_new_sections = (incoming \<noteq> []);
                  draft_sections = merged_draft (final_report_draft_sections (rt w)) incoming
              in
              if draft_sections = [] then
                return_final_write_failure tu attempt_no section_payload_required_payload w
              else
                (let draft_version =
                       max 1 (if has_new_sections then final_report_draft_version (rt w) + 1
                              else final_report_draft_version (rt w));
                     w1 = w\<lparr>rt := (rt w)\<lparr>final_report_draft_sections := draft_sections,
                                             final_report_draft_version := draft_version\<rparr>\<rparr>;
                     current_section_id =
                       (case requested_section_id of
                          Some r \<Rightarrow> Some r
                        | None \<Rightarrow> if has_new_sections then first_incoming incoming else None)
                 in
                 if missing_sections_of draft_sections \<noteq> [] then
                   draft_saved tu attempt_no normalized_source draft_sections draft_version
                     current_section_id w1
                 else
                   commit_final_report analyze tu attempt_no normalized_source draft_sections
                     draft_version current_section_id w1))))"


section \<open>The sequence of tool calls of one job run\<close>

datatype tool_call =
    StatusUpdate string "string option" "string option" "string option"
  | PdfSearch string int
  | PdfReadLines int int int
  | PdfJump int
  | PdfAnnotate annotate_args
  | PaperSearch search_args
  | ReadPaper "json list" "jdict option"
  | QuestionPrompt string "string list option"
  | FinalWrite final_write_args

text \<open>
  One tool call: the token usage the agent framework reports in the call and the call
  itself. \<open>tool_result\<close> is the payload returned to the agent (\<open>None\<close> when the tool
  raises), \<open>tool_step\<close> the world after the call.
\<close>

definition tool_run ::
  "(string \<Rightarrow> json option) \<Rightarrow> (string \<Rightarrow> language_stats) \<Rightarrow> token_usage \<times> tool_call \<Rightarrow> world \<Rightarrow>
   jdict option \<times> world" where
  "tool_run json_loads analyze c w =
     (case c of (tu, call) \<Rightarrow>
        (case call of
           StatusUpdate step done blocked todo \<Rightarrow>
             map_prod Some id (mcp_status_update tu step done blocked todo w)
         | PdfSearch query top_k \<Rightarrow> map_prod Some id (pdf_search tu query top_k w)
         | PdfReadLines page start_line end_line \<Rightarrow>
             map_prod Some id (pdf_read_lines tu page start_line end_line w)
         | PdfJump page \<Rightarrow> map_prod Some id (pdf_jump tu page w)
         | PdfAnnotate a \<Rightarrow> map_prod Some id (pdf_annotate tu a w)
         | PaperSearch a \<Rightarrow> map_prod Some id (paper_search json_loads tu a w)
         | ReadPaper items outcome \<Rightarrow> read_paper tu items outcome w
         | QuestionPrompt question options \<Rightarrow> map_prod Some id (question_prompt tu question options w)
         | FinalWrite a \<Rightarrow> map_prod Some id (review_final_markdown_write analyze tu a w)))"

definition tool_step ::
  "(string \<Rightarrow> json option) \<Rightarrow> (string \<Rightarrow> language_stats) \<Rightarrow> world \<Rightarrow> token_usage \<times> tool_call \<Rightarrow> world" where
  "tool_step json_loads analyze w c = snd (tool_run json_loads analyze c w)"

definition run_tools ::
  "(string \<Rightarrow> json option) \<Rightarrow> (string \<Rightarrow> language_stats) \<Rightarrow> (token_usage \<times> tool_call) list \<Rightarrow> world \<Rightarrow> world" where
  "run_tools json_loads analyze calls w = foldl (tool_step json_loads analyze) w calls"

definition initial_runtime :: "string \<Rightarrow> (int \<times> string list) list \<Rightarrow> settings \<Rightarrow> runtime" where
  \<comment> \<open>\<open>ReviewRuntimeContext(job_id, job_dir, page_index, ...)\<close> with the defaults of its fields.\<close>
  "initial_runtime dir pi cfg =
     \<lparr>job_dir = dir, page_index = pi, rt_settings = cfg, annotations = [],
      final_markdown_text = None, final_report_draft_sections = [],
      final_report_draft_version = 0, tool_counts = [],
      paper_search_usage = \<lparr>total_calls = 0, successful_calls = 0, effective_calls = 0,
                             papers_found = 0, distinct_queries = 0\<rparr>,
      paper_search_signatures = {}, status_updates = []\<rparr>"

definition count_events :: "string \<Rightarrow> event list \<Rightarrow> nat" where
  "count_events name evs = length (filter (\<lambda>e. ev_name e = name) evs)"

section \<open>Recovery after an exception (runner.py)\<close>

text \<open>
  What the controller sees after an exception: the job record (\<open>None\<close> when \<open>job.json\<close>
  is missing), the paths that exist on disk, and the event log. \<open>export_attempts\<close> counts
  the calls of \<open>_render_report_pdf\<close>. Paths are plain texts.
\<close>

record store =
  st_job :: "job_state option"
  st_files :: "string set"
  st_events :: "event list"
  export_attempts :: nat

definition store_event :: "string \<Rightarrow> jdict \<Rightarrow> store \<Rightarrow> store" where
  "store_event name extra s = s\<lparr>st_events := st_events s @ [\<lparr>ev_name = name, ev_data = extra\<rparr>]\<rparr>"

definition path_or :: "string option \<Rightarrow> string \<Rightarrow> string" where
  \<comment> \<open>\<open>p or fallback\<close>\<close>
  "path_or p fallback = (case p of None \<Rightarrow> fallback | Some t \<Rightarrow> if t = [] then fallback else t)"

definition has_persist_marker :: "job_state \<Rightarrow> bool" where
  "has_persist_marker state =
     (final_report_ready state
      \<or> py_strip (path_or (final_markdown_path (artifacts state)) []) \<noteq> []
      \<or> py_strip (py_str (py_or (dget (metadata state) ''final_report_source'') (JStr []))) \<noteq> [])"

text \<open>
  \<open>render\<close> is what \<open>_render_report_pdf\<close> does when it is called: \<open>Inl\<close> the rendered
  exception, \<open>Inr\<close> the export statistics of a report written to \<open>report_pdf_path\<close>.
\<close>

definition complete_with_existing_final_report ::
  "string \<Rightarrow> string \<Rightarrow> (string + jdict) \<Rightarrow> store \<Rightarrow> bool \<times> store" where
  "complete_with_existing_final_report root warning render s =
     (case st_job s of
        None \<Rightarrow> (False, s)
      | Some state \<Rightarrow>
          (let final_md_path = path_or (final_markdown_path (artifacts state)) (root @ ''/final_report.md'') in
           if final_md_path \<notin> st_files s then (False, s)
           else if \<not> has_persist_marker state then
             (False, store_event ''completed_recovery_skipped''
                       [(''warning'', JStr warning),
                        (''reason'', JStr ''final_markdown_exists_without_persist_marker'')] s)
           else
             (let report_path = path_or (report_pdf_path (artifacts state)) (root @ ''/final_report.pdf'');
                  s1 = (if report_path \<notin> st_files s then
                          (case render of
                             Inl err \<Rightarrow> s\<lparr>export_attempts := Suc (export_attempts s)\<rparr>
                           | Inr export_stats \<Rightarrow>
                               store_event ''pdf_export_rendered'' export_stats
                                 (s\<lparr>export_attempts := Suc (export_attempts s),
                                    st_files := insert report_path (st_files s)\<rparr>))
                        else s);
                  pdf_error = (if report_path \<notin> st_files s then
                                 (case render of Inl err \<Rightarrow> Some err | Inr export_stats \<Rightarrow> None)
                               else None);
                  pdf_exists = (report_path \<in> st_files s1);
                  md1 = AList.update ''post_exception_warning'' (JStr warning)
                          (AList.update ''post_exception_recovery'' (JBool True) (metadata state));
                  state' = state\<lparr>
                     status := completed,
                     final_report_ready := True,
                     pdf_ready := pdf_exists,
                     artifacts := (artifacts state)\<lparr>
                        final_markdown_path := Some final_md_path,
                        report_pdf_path := (if pdf_exists then Some report_path else None)\<rparr>,
                     error := pdf_error,
                     message := (if pdf_error = None
                                 then ''Review pipeline completed via recovery after post-write exception.''
                                 else ''Final report persisted, but PDF export failed during recovery.''),
                     metadata := (case pdf_error of
                                    None \<Rightarrow> md1
                                  | Some err \<Rightarrow> if err \<noteq> [] then
                                        AList.update ''pdf_export_recovery_error'' (JStr err) md1
                                      else md1)\<rparr>
              in (True,
                  store_event ''completed_recovered''
                    [(''warning'', JStr warning), (''pdf_ready'', JBool pdf_exists),
                     (''pdf_error'', jopt pdf_error)]
                    (s1\<lparr>st_job := Some state'\<rparr>)))))"

datatype run_error = FileNotFoundError

definition fail_job :: "string \<Rightarrow> string \<Rightarrow> store \<Rightarrow> run_error + store" where
  "fail_job msg err s =
     (case st_job s of
        None \<Rightarrow> Inl FileNotFoundError
      | Some state \<Rightarrow>
          Inr (store_event ''failed'' [(''message'', JStr msg), (''error'', JStr err)]
                 (s\<lparr>st_job := Some (state\<lparr>status := failed, message := msg, error := Some err\<rparr>)\<rparr>)))"

definition run_job_except ::
  "string \<Rightarrow> string \<Rightarrow> string \<Rightarrow> (string + jdict) \<Rightarrow> store \<Rightarrow> run_error + store" where
  \<comment> \<open>The handler of \<open>run_job\<close>: \<open>detail\<close> and \<open>stack\<close> are the rendered exception.\<close>
  "run_job_except root detail stack render s =
     (let s1 = store_event ''pipeline_exception'' [(''error'', JStr detail), (''stack'', JStr stack)] s in
      case complete_with_existing_final_report root detail render s1 of
        (True, s2) \<Rightarrow> Inr s2
      | (False, s2) \<Rightarrow> fail_job ''Review pipeline failed.'' detail s2)"


section \<open>A fresh job (config.py, types.py)\<close>

definition default_settings :: settings where
  \<comment> \<open>The defaults of \<open>Settings\<close>.\<close>
  "default_settings =
     \<lparr>enable_final_gates = False,
      min_paper_search_calls_for_pdf_annotate = 3,
      min_paper_search_calls_for_final = 3,
      min_distinct_paper_queries_for_final = 3,
      min_annotations_for_final = 10,
      min_english_words_for_final = 0,
      min_chinese_chars_for_final = 0,
      force_english_output = True\<rparr>"

definition no_tokens :: token_usage where
  "no_tokens = \<lparr>requests = 0, input_tokens = 0, output_tokens = 0, total_tokens = 0\<rparr>"

definition new_job :: "string \<Rightarrow> string \<Rightarrow> job_state" where
  \<comment> \<open>\<open>JobState(title=..., source_pdf_name=...)\<close> with the defaults of its fields.\<close>
  "new_job t pdf_name =
     \<lparr>job_title = t, source_pdf_name = pdf_name, status = queued, message = ''Job queued.'',
      error = None,
      usage = \<lparr>token = no_tokens,
                tool = \<lparr>tool_total_calls = 0, distinct_tools = 0, per_tool = []\<rparr>,
                paper_search = \<lparr>total_calls = 0, successful_calls = 0, effective_calls = 0,
                                 papers_found = 0, distinct_queries = 0\<rparr>\<rparr>,
      annotation_count = 0, final_report_ready = False, pdf_ready = False,
      artifacts = \<lparr>source_pdf_path = None, mineru_markdown_path = None,
                    mineru_content_list_path = None, annotations_path = None,
                    final_markdown_path = None, report_pdf_path = None,
                    prompt_snapshot_path = None\<rparr>,
      metadata = []\<rparr>"

definition new_world :: "(int \<times> string list) list \<Rightarrow> settings \<Rightarrow> world" where
  \<comment> \<open>The world when the runtime of a job is created, before the first tool call.\<close>
  "new_world pi cfg =
     \<lparr>rt = initial_runtime ''job'' pi cfg, job = new_job ''Paper'' ''paper.pdf'',
      events = [], final_report_md = None, final_report_writes = 0, annotations_json = None\<rparr>"


definition gate_unmet :: "world \<Rightarrow> bool" where
  \<comment> \<open>\<open>current_search_calls < required_search_calls\<close> in \<open>pdf_annotate\<close>.\<close>
  "gate_unmet w = (max 0 (total_calls (paper_search_usage (rt w)))
       < max 0 (min_paper_search_calls_for_pdf_annotate (rt_settings (rt w))))"

definition example_annotate_args :: annotate_args where
  "example_annotate_args =
     \<lparr>aa_page = 1, aa_start_line = 1, aa_end_line = 1, aa_comment = ''typo'',
      aa_summary = None, aa_object_type = ''suggestion'', aa_severity = None,
      aa_new_id = ''a1''\<rparr>"

definition clamp :: "int \<Rightarrow> int \<Rightarrow> int \<Rightarrow> int" where
  \<comment> \<open>\<open>clamp(x, lo, hi)\<close> of the specification.\<close>
  "clamp x lo hi = max lo (min hi x)"

(*DEFS-END*)

section \<open>Verification\<close>

subsection \<open>Parse polling: terminal failure\<close>

text \<open>
  C7. During parse polling a payload is classified terminal-failure exactly when its
  extracted state is one of failed, error, aborted, or it carries an integer code other
  than 0 together with a (non-empty) message that contains neither \<open>processing\<close> nor
  \<open>running\<close>, the benign pattern (code -60012 with a message containing
  \<open>task not found\<close> or \<open>expire\<close>) excepted from the second alternative.
\<close>

theorem terminal_failure_classification:
  "is_terminal_failure payload = spec_terminal_failure payload"
  unfolding is_terminal_failure_def spec_terminal_failure_def benign_not_found_def
  by (auto simp: Let_def split: option.splits)

lemma benign_poll_not_terminal_spec:
  "spec_terminal_failure
     [(''code'', JInt (- 60012)), (''msg'', JStr ''task not found or expire'')] = False"
  by code_simp

lemma error_poll_terminal_spec:
  "spec_terminal_failure
     [(''code'', JInt 500), (''message'', JStr ''Internal failure'')] = True"
  by code_simp

theorem terminal_failure_classification_witness:
  "\<not> is_terminal_failure
       [(''code'', JInt (- 60012)), (''msg'', JStr ''task not found or expire'')]
   \<and> is_terminal_failure [(''code'', JInt 500), (''message'', JStr ''Internal failure'')]"
  using terminal_failure_classification
          [of "[(''code'', JInt (- 60012)), (''msg'', JStr ''task not found or expire'')]"]
        terminal_failure_classification
          [of "[(''code'', JInt 500), (''message'', JStr ''Internal failure'')]"]
        benign_poll_not_terminal_spec error_poll_terminal_spec
  by simp

subsection \<open>Projections of the world after the bookkeeping steps\<close>

lemma record_tool_fields [simp]:
  "paper_search_usage (rt (record_tool n w)) = paper_search_usage (rt w)"
  "rt_settings (rt (record_tool n w)) = rt_settings (rt w)"
  "annotations (rt (record_tool n w)) = annotations (rt w)"
  "page_index (rt (record_tool n w)) = page_index (rt w)"
  "final_markdown_text (rt (record_tool n w)) = final_markdown_text (rt w)"
  "final_report_draft_sections (rt (record_tool n w)) = final_report_draft_sections (rt w)"
  "final_report_draft_version (rt (record_tool n w)) = final_report_draft_version (rt w)"
  "paper_search_signatures (rt (record_tool n w)) = paper_search_signatures (rt w)"
  "status_updates (rt (record_tool n w)) = status_updates (rt w)"
  "job_dir (rt (record_tool n w)) = job_dir (rt w)"
  "events (record_tool n w) = events w"
  "job (record_tool n w) = job w"
  "final_report_md (record_tool n w) = final_report_md w"
  "final_report_writes (record_tool n w) = final_report_writes w"
  "annotations_json (record_tool n w) = annotations_json w"
  by (simp_all add: record_tool_def)

lemma sync_state_usage_fields [simp]:
  "rt (sync_state_usage tu w) = rt w"
  "events (sync_state_usage tu w) = events w"
  "final_report_md (sync_state_usage tu w) = final_report_md w"
  "final_report_writes (sync_state_usage tu w) = final_report_writes w"
  "annotations_json (sync_state_usage tu w) = annotations_json w"
  by (simp_all add: sync_state_usage_def mutate_job_state_def)

lemma append_event_fields [simp]:
  "rt (append_event n d w) = rt w"
  "events (append_event n d w) = events w @ [\<lparr>ev_name = n, ev_data = d\<rparr>]"
  "job (append_event n d w) = job w"
  "final_report_md (append_event n d w) = final_report_md w"
  "final_report_writes (append_event n d w) = final_report_writes w"
  "annotations_json (append_event n d w) = annotations_json w"
  by (simp_all add: append_event_def)

lemma mutate_job_state_fields [simp]:
  "rt (mutate_job_state f w) = rt w"
  "events (mutate_job_state f w) = events w"
  "job (mutate_job_state f w) = f (job w)"
  "final_report_md (mutate_job_state f w) = final_report_md w"
  "final_report_writes (mutate_job_state f w) = final_report_writes w"
  "annotations_json (mutate_job_state f w) = annotations_json w"
  by (simp_all add: mutate_job_state_def)

subsection \<open>The paper-search gate of \<open>pdf_annotate\<close>\<close>

lemma annotate_ok_payload_no_reason:
  "dget (annotate_ok_payload ann page n r u) ''reason'' = JNull"
  by (simp add: annotate_ok_payload_def dget_def Let_def)

text \<open>
  C3, as the code has it. \<open>pdf_annotate\<close> applies gate G1 whether or not
  \<open>enable_final_gates\<close> is on: it returns the error \<open>paper_search_calls_not_met\<close>
  exactly when the cumulative paper-search total calls (floored at 0) are below
  \<open>min_paper_search_calls_for_pdf_annotate\<close> (floored at 0); the call is then an error
  that stores no annotation and appends no event.
\<close>

theorem pdf_annotate_gate:
  "(dget (fst (pdf_annotate tu a w)) ''reason'' = JStr ''paper_search_calls_not_met'')
     = gate_unmet w
   \<and> (gate_unmet w \<longrightarrow>
        dget (fst (pdf_annotate tu a w)) ''status'' = JStr ''error'' \<and>
        annotations (rt (snd (pdf_annotate tu a w))) = annotations (rt w) \<and>
        annotations_json (snd (pdf_annotate tu a w)) = annotations_json w \<and>
        events (snd (pdf_annotate tu a w)) = events w)"
proof -
  have a: "(dget (fst (pdf_annotate tu a w)) ''reason'' = JStr ''paper_search_calls_not_met'')
     = gate_unmet w"
    unfolding pdf_annotate_def gate_unmet_def
    by (simp add: Let_def annotate_ok_payload_no_reason split: prod.splits)
       (simp add: dget_def annotate_gate_error_def page_not_found_def)
  have b: "gate_unmet w \<Longrightarrow>
        dget (fst (pdf_annotate tu a w)) ''status'' = JStr ''error'' \<and>
        annotations (rt (snd (pdf_annotate tu a w))) = annotations (rt w) \<and>
        annotations_json (snd (pdf_annotate tu a w)) = annotations_json w \<and>
        events (snd (pdf_annotate tu a w)) = events w"
    unfolding pdf_annotate_def gate_unmet_def
    by (simp add: Let_def dget_def annotate_gate_error_def)
  from a b show ?thesis by blast
qed

lemma new_world_gate_unmet: "gate_unmet (new_world [(1, [''A line.''])] default_settings)"
  by (simp add: gate_unmet_def new_world_def initial_runtime_def default_settings_def)

theorem pdf_annotate_gate_witness:
  "gate_unmet (new_world [(1, [''A line.''])] default_settings) \<and>
   dget (fst (pdf_annotate no_tokens example_annotate_args
                (new_world [(1, [''A line.''])] default_settings))) ''reason''
     = JStr ''paper_search_calls_not_met'' \<and>
   dget (fst (pdf_annotate no_tokens example_annotate_args
                (new_world [(1, [''A line.''])] default_settings))) ''status'' = JStr ''error''"
  using pdf_annotate_gate [of no_tokens example_annotate_args
          "new_world [(1, [''A line.''])] default_settings"] new_world_gate_unmet
  by simp

text \<open>
  The claim as stated fails: with the default settings gate enforcement is off, and the
  first \<open>pdf_annotate\<close> of a job is still refused for insufficient paper-search calls.
\<close>

theorem pdf_annotate_gate_counterexample:
  "\<not> enable_final_gates (rt_settings (rt (new_world [(1, [''A line.''])] default_settings))) \<and>
   dget (fst (pdf_annotate no_tokens example_annotate_args
                (new_world [(1, [''A line.''])] default_settings))) ''reason''
     = JStr ''paper_search_calls_not_met''"
proof -
  have "dget (fst (pdf_annotate no_tokens example_annotate_args
                (new_world [(1, [''A line.''])] default_settings))) ''reason''
     = JStr ''paper_search_calls_not_met''"
    unfolding pdf_annotate_def
    by (simp add: Let_def new_world_def initial_runtime_def default_settings_def
          annotate_gate_error_def dget_def)
  then show ?thesis
    by (simp add: new_world_def initial_runtime_def default_settings_def)
qed

subsection \<open>\<open>pdf_search\<close>\<close>

lemma search_hits_length:
  "length (search_hits pi text top_k) \<le> nat (clamp (if top_k = 0 then 8 else top_k) 1 50)"
  by (simp add: search_hits_def hit_limit_def clamp_def)

lemma search_hits_sorted: "sorted (map hit_key (search_hits pi text top_k))"
  unfolding search_hits_def take_map [symmetric]
  by (rule sorted_wrt_take) (rule sorted_sort_key)

lemma scored_rows_mem:
  "(s, p, ln, t) \<in> set (scored_rows pi text) \<Longrightarrow>
     line_score text t = Some s \<and> (p, ln, t) \<in> set (flatten_page_index pi)"
  by (auto simp: scored_rows_def split: option.splits)

lemma search_hits_mem:
  "h \<in> set (search_hits pi text top_k) \<Longrightarrow> h \<in> set (scored_rows pi text)"
  unfolding search_hits_def by (auto dest: in_set_takeD)

text \<open>
  C9, as the code has it. A \<open>pdf_search\<close> call with a query that is empty or only
  whitespace returns the error \<open>empty_query\<close>. Otherwise it returns the hits
  \<open>search_hits\<close> of the stripped query: at most \<open>clamp(k, 1, 50)\<close> of them, where \<open>k\<close> is
  \<open>top_k\<close>, and 8 when \<open>top_k\<close> is 0; sorted by score descending, then page ascending,
  then line ascending (the lexicographic order of \<open>hit_key\<close>); each hit a line of the page
  index with its score \<open>line_score\<close>, the case-insensitive count of the whitespace tokens
  of the query with the whole query as substring fallback.
\<close>

theorem pdf_search_hits:
  "(py_strip query = [] \<longrightarrow>
      dget (fst (pdf_search tu query top_k w)) ''status'' = JStr ''error'' \<and>
      dget (fst (pdf_search tu query top_k w)) ''reason'' = JStr ''empty_query'') \<and>
   (py_strip query \<noteq> [] \<longrightarrow>
      dget (fst (pdf_search tu query top_k w)) ''status'' = JStr ''ok'' \<and>
      dget (fst (pdf_search tu query top_k w)) ''hits''
        = JList (map hit_json (search_hits (page_index (rt w)) (py_strip query) top_k))) \<and>
   length (search_hits pi text top_k) \<le> nat (clamp (if top_k = 0 then 8 else top_k) 1 50) \<and>
   sorted (map hit_key (search_hits pi text top_k)) \<and>
   (\<forall>h \<in> set (search_hits pi text top_k).
      line_score text (snd (snd (snd h))) = Some (fst h) \<and>
      snd h \<in> set (flatten_page_index pi))"
proof -
  have a: "py_strip query = [] \<Longrightarrow>
      dget (fst (pdf_search tu query top_k w)) ''status'' = JStr ''error'' \<and>
      dget (fst (pdf_search tu query top_k w)) ''reason'' = JStr ''empty_query''"
    by (simp add: pdf_search_def Let_def dget_def)
  have b: "py_strip query \<noteq> [] \<Longrightarrow>
      dget (fst (pdf_search tu query top_k w)) ''status'' = JStr ''ok'' \<and>
      dget (fst (pdf_search tu query top_k w)) ''hits''
        = JList (map hit_json (search_hits (page_index (rt w)) (py_strip query) top_k))"
    by (simp add: pdf_search_def Let_def dget_def)
  have c: "\<forall>h \<in> set (search_hits pi text top_k).
      line_score text (snd (snd (snd h))) = Some (fst h) \<and>
      snd h \<in> set (flatten_page_index pi)"
  proof
    fix h assume "h \<in> set (search_hits pi text top_k)"
    then have "h \<in> set (scored_rows pi text)" by (rule search_hits_mem)
    then show "line_score text (snd (snd (snd h))) = Some (fst h) \<and>
      snd h \<in> set (flatten_page_index pi)"
      using scored_rows_mem [of "fst h" "fst (snd h)" "fst (snd (snd h))" "snd (snd (snd h))" pi "text"]
      by simp
  qed
  from a b c search_hits_length search_hits_sorted show ?thesis by blast
qed

lemma example_search_hits:
  "search_hits [(2, [''x b'', ''B b'']), (1, [''a'', ''b c'', ''abba B''])] ''b'' 2
     = [(3, 1, 3, ''abba B''), (2, 2, 2, ''B b'')]"
  by code_simp

theorem pdf_search_hits_witness:
  "py_strip '' b '' \<noteq> [] \<and>
   dget (fst (pdf_search no_tokens '' b '' 2
      (new_world [(2, [''x b'', ''B b'']), (1, [''a'', ''b c'', ''abba B''])] default_settings)))
      ''hits''
     = JList [hit_json (3, 1, 3, ''abba B''), hit_json (2, 2, 2, ''B b'')] \<and>
   py_strip ''  '' = [] \<and>
   dget (fst (pdf_search no_tokens ''  '' 2 (new_world [] default_settings))) ''reason''
     = JStr ''empty_query''"
proof -
  have s1: "py_strip '' b '' = ''b''" by code_simp
  have s2: "py_strip ''  '' = []" by code_simp
  have pi: "page_index (rt (new_world [(2, [''x b'', ''B b'']), (1, [''a'', ''b c'', ''abba B''])]
      default_settings)) = [(2, [''x b'', ''B b'']), (1, [''a'', ''b c'', ''abba B''])]"
    by (simp add: new_world_def initial_runtime_def)
  show ?thesis
    using pdf_search_hits [of "'' b ''" no_tokens 2
            "new_world [(2, [''x b'', ''B b'']), (1, [''a'', ''b c'', ''abba B''])] default_settings"]
          pdf_search_hits [of "''  ''" no_tokens 2 "new_world [] default_settings"]
          s1 s2 pi example_search_hits
    by simp
qed

text \<open>
  The claim as stated fails at \<open>top_k = 0\<close>: \<open>clamp(0, 1, 50)\<close> is 1, and the call
  returns two hits.
\<close>

theorem pdf_search_hits_counterexample:
  "\<not> length (search_hits [(1, [''a'', ''a''])] ''a'' 0) \<le> nat (clamp 0 1 50)"
proof -
  have "length (search_hits [(1, [''a'', ''a''])] ''a'' 0) = 2" by code_simp
  then show ?thesis by (simp add: clamp_def)
qed

end
